theory Spec2Isabelle
  imports Complex_Main
begin

section \<open>Donation inventory: validation, storage and routes\<close>

text \<open>
  The backend has three layers: the Zod schemas of \<^verbatim>\<open>types.ts\<close> (the Validator), the
  SQLite-backed class of \<^verbatim>\<open>database.ts\<close> (the Store) and the Express handlers of
  \<^verbatim>\<open>routes.ts\<close>. Each is embedded as a function; what the libraries do (Zod's checks,
  SQLite's statements, \<^verbatim>\<open>parseInt\<close>) is written out as the handlers use it.

  Conventions of the embedding:
  \<^item> a JavaScript string is a \<open>string\<close>; one \<open>char\<close> stands for one UTF-16 code unit in
    the range U+0000..U+00FF, so \<open>length\<close> is JavaScript's \<^verbatim>\<open>.length\<close>;
  \<^item> a JavaScript number that carries a quantity is a \<open>real\<close> (only its order against
    \<open>0\<close> and \<open>1000000\<close> is ever inspected); one that carries an id is an \<open>int\<close>,
    rounded as a double is wherever a 64-bit id or a parsed string becomes a number;
  \<^item> \<^verbatim>\<open>CURRENT_TIMESTAMP\<close> has a resolution of one second: a timestamp is the \<open>nat\<close>
    number of seconds the statement observes, passed in as \<open>now\<close>;
  \<^item> a failure of the storage medium is an input of the environment: the list \<open>fs\<close> says,
    for the k-th statement an operation issues, whether the medium fails there;
  \<^item> a rejected promise or a thrown \<^verbatim>\<open>Error\<close> is \<open>Inl\<close> of its message.
\<close>

subsection \<open>Request values\<close>

datatype jsvalue = JUndefined | JNull | JBool bool | JNum real | JStr string | JArray | JObject

type_synonym body = "string \<rightharpoonup> jsvalue"

definition field :: "body \<Rightarrow> string \<Rightarrow> jsvalue" where
  "field b k = (case b k of None \<Rightarrow> JUndefined | Some v \<Rightarrow> v)"

subsection \<open>Strings\<close>

text \<open>White space as \<^verbatim>\<open>String.prototype.trim\<close> and \<^verbatim>\<open>parseInt\<close> see it, among the
  code units below U+0100: TAB, LF, VT, FF, CR, SPACE and NBSP.\<close>

definition is_white_space :: "char \<Rightarrow> bool" where
  "is_white_space c \<longleftrightarrow>
     c = CHR 0x09 \<or> c = CHR 0x0A \<or> c = CHR 0x0B \<or> c = CHR 0x0C \<or> c = CHR 0x0D
     \<or> c = CHR 0x20 \<or> c = CHR 0xA0"

definition trim :: "string \<Rightarrow> string" where
  "trim s = rev (dropWhile is_white_space (rev (dropWhile is_white_space s)))"

subsection \<open>The records of \<^verbatim>\<open>types.ts\<close>\<close>

record CreateDonationInput =
  donor_name :: string
  donation_type :: string
  quantity :: real
  date :: string

record Donation = CreateDonationInput +
  rowid :: int
  created_at :: nat
  updated_at :: nat

text \<open>\<^verbatim>\<open>UpdateDonationInput\<close>: every field optional; \<open>None\<close> is an absent (or
  \<^verbatim>\<open>undefined\<close>) field.\<close>

record UpdateDonationInput =
  u_donor_name :: "string option"
  u_donation_type :: "string option"
  u_quantity :: "real option"
  u_date :: "string option"

definition DonationType :: "string list" where
  "DonationType = [''money'', ''food'', ''clothing'', ''toys'', ''books'', ''household'', ''other'']"

subsection \<open>Validator: the Zod schemas\<close>

text \<open>An issue is a path and a message; the route prints it as \<^verbatim>\<open>path: message\<close>. Where
  the schema gives no message of its own, the library's issue code stands for its default
  text.\<close>

datatype issue = Issue string string

definition issues_of :: "issue list + 'a \<Rightarrow> issue list" where
  "issues_of r = (case r of Inl is \<Rightarrow> is | Inr _ \<Rightarrow> [])"

text \<open>\<^verbatim>\<open>z.string().min(2, ..).max(100, ..).trim()\<close>: the checks run in the order they are
  chained, \<open>min\<close> and \<open>max\<close> on the string as received, then the trim.\<close>

definition donor_name_schema :: "jsvalue \<Rightarrow> issue list + string" where
  "donor_name_schema v =
     (case v of
        JStr s \<Rightarrow>
          (let is = (if length s < 2
                     then [Issue ''donor_name'' ''Donor name must be at least 2 characters'']
                     else [])
                  @ (if length s > 100
                     then [Issue ''donor_name'' ''Donor name must be less than 100 characters'']
                     else [])
           in if is = [] then Inr (trim s) else Inl is)
      | _ \<Rightarrow> Inl [Issue ''donor_name'' ''invalid_type''])"

definition donation_type_schema :: "jsvalue \<Rightarrow> issue list + string" where
  "donation_type_schema v =
     (case v of
        JStr s \<Rightarrow> (if s \<in> set DonationType then Inr s
                   else Inl [Issue ''donation_type'' ''invalid_enum_value''])
      | _ \<Rightarrow> Inl [Issue ''donation_type'' ''invalid_type''])"

definition quantity_schema :: "jsvalue \<Rightarrow> issue list + real" where
  "quantity_schema v =
     (case v of
        JNum q \<Rightarrow>
          (let is = (if \<not> 0 < q then [Issue ''quantity'' ''Quantity must be a positive number'']
                     else [])
                  @ (if q > 1000000 then [Issue ''quantity'' ''Quantity seems too large'']
                     else [])
           in if is = [] then Inr q else Inl is)
      | _ \<Rightarrow> Inl [Issue ''quantity'' ''invalid_type''])"

text \<open>\<^verbatim>\<open>Date.parse\<close> is implementation-defined outside the ISO format; \<open>dp s\<close> says
  whether \<^verbatim>\<open>Date.parse(s)\<close> is a number.\<close>

definition date_schema :: "(string \<Rightarrow> bool) \<Rightarrow> jsvalue \<Rightarrow> issue list + string" where
  "date_schema dp v =
     (case v of
        JStr s \<Rightarrow> (if dp s then Inr s else Inl [Issue ''date'' ''Please provide a valid date''])
      | _ \<Rightarrow> Inl [Issue ''date'' ''invalid_type''])"

definition optional :: "(jsvalue \<Rightarrow> issue list + 'a) \<Rightarrow> jsvalue \<Rightarrow> issue list + 'a option" where
  "optional p v =
     (if v = JUndefined then Inr None
      else (case p v of Inl is \<Rightarrow> Inl is | Inr x \<Rightarrow> Inr (Some x)))"

text \<open>\<^verbatim>\<open>z.object({...})\<close> reads the four keys of its shape, in order, collects the issues
  of all of them, and builds its output from those keys alone.\<close>

definition CreateDonationSchema ::
  "(string \<Rightarrow> bool) \<Rightarrow> body \<Rightarrow> issue list + CreateDonationInput" where
  "CreateDonationSchema dp b =
     (let n = donor_name_schema (field b ''donor_name'');
          t = donation_type_schema (field b ''donation_type'');
          q = quantity_schema (field b ''quantity'');
          d = date_schema dp (field b ''date'')
      in case (n, t, q, d) of
           (Inr n', Inr t', Inr q', Inr d') \<Rightarrow>
             Inr \<lparr>donor_name = n', donation_type = t', quantity = q', date = d'\<rparr>
         | _ \<Rightarrow> Inl (issues_of n @ issues_of t @ issues_of q @ issues_of d))"

definition UpdateDonationSchema ::
  "(string \<Rightarrow> bool) \<Rightarrow> body \<Rightarrow> issue list + UpdateDonationInput" where
  "UpdateDonationSchema dp b =
     (let n = optional donor_name_schema (field b ''donor_name'');
          t = optional donation_type_schema (field b ''donation_type'');
          q = optional quantity_schema (field b ''quantity'');
          d = optional (date_schema dp) (field b ''date'')
      in case (n, t, q, d) of
           (Inr n', Inr t', Inr q', Inr d') \<Rightarrow>
             Inr \<lparr>u_donor_name = n', u_donation_type = t', u_quantity = q', u_date = d'\<rparr>
         | _ \<Rightarrow> Inl (issues_of n @ issues_of t @ issues_of q @ issues_of d))"

subsection \<open>Numbers\<close>

text \<open>A JavaScript number is a double: an integer of magnitude up to \<open>2 ^ 53\<close> is exact, a
  larger one is rounded to the nearest double, ties to the even significand. \<open>bit_length n\<close>
  is the number of binary digits of \<open>n\<close>; a double keeps the leading 53 of them. A value
  that rounds to \<^verbatim>\<open>Infinity\<close> is represented by \<open>2 ^ 1024\<close>: as an id it lies above every
  64-bit row id, as \<^verbatim>\<open>Infinity\<close> does.\<close>

fun bit_length :: "nat \<Rightarrow> nat" where
  "bit_length n = (if n = 0 then 0 else Suc (bit_length (n div 2)))"

declare bit_length.simps [simp del]

definition round_double :: "nat \<Rightarrow> nat" where
  "round_double n =
     (if n \<le> 2 ^ 53 then n
      else
        let e = bit_length n - 53;
            q = n div 2 ^ e;
            r = n mod 2 ^ e;
            h = 2 ^ (e - 1);
            v = (if h < r \<or> (r = h \<and> odd q) then (q + 1) * 2 ^ e else q * 2 ^ e)
        in min v (2 ^ 1024))"

definition to_number :: "int \<Rightarrow> int" where
  "to_number i =
     (if i < 0 then - int (round_double (nat (- i))) else int (round_double (nat i)))"

subsection \<open>Store: the SQLite table\<close>

text \<open>The table \<^verbatim>\<open>donations\<close> is the list of its rows in insertion order, together with
  the counter that \<^verbatim>\<open>AUTOINCREMENT\<close> keeps in \<^verbatim>\<open>sqlite_sequence\<close>.\<close>

record database =
  rows :: "Donation list"
  sqlite_sequence :: int

datatype sqlite_error = SQLITE_CONSTRAINT | SQLITE_IOERR | SQLITE_FULL

definition fault :: "bool list \<Rightarrow> nat \<Rightarrow> bool" where
  "fault fs k \<longleftrightarrow> k < length fs \<and> fs ! k"

text \<open>SQL \<^verbatim>\<open>length(X)\<close> counts the characters before the first NUL.\<close>

definition sqlite_length :: "string \<Rightarrow> nat" where
  "sqlite_length s = length (takeWhile (\<lambda>c. c \<noteq> CHR 0x00) s)"

text \<open>The three \<^verbatim>\<open>CHECK\<close> clauses of \<^verbatim>\<open>CREATE TABLE\<close>.\<close>

definition check_constraints :: "'a CreateDonationInput_scheme \<Rightarrow> bool" where
  "check_constraints r \<longleftrightarrow>
     sqlite_length (donor_name r) \<ge> 2
     \<and> donation_type r \<in> set DonationType
     \<and> quantity r > 0"

text \<open>\<^verbatim>\<open>INSERT INTO donations (donor_name, donation_type, quantity, date) VALUES (?,?,?,?)\<close>.
  The new id is one more than the largest id the table has ever held; at the largest 64-bit
  id the insert fails. Both timestamps default to the time of the statement. A statement
  that fails changes nothing. The result holds \<^verbatim>\<open>this.lastID\<close>, the new id as a
  JavaScript number.\<close>

definition sql_insert ::
  "bool \<Rightarrow> nat \<Rightarrow> CreateDonationInput \<Rightarrow> database \<Rightarrow> sqlite_error + (database \<times> int)" where
  "sql_insert flt now d db =
     (if flt then Inl SQLITE_IOERR
      else
        let m = fold max (map rowid (rows db)) (sqlite_sequence db)
        in if m \<ge> 9223372036854775807 then Inl SQLITE_FULL
           else if \<not> check_constraints d then Inl SQLITE_CONSTRAINT
           else
             let r = \<lparr>donor_name = donor_name d, donation_type = donation_type d,
                      quantity = quantity d, date = date d,
                      rowid = m + 1, created_at = now, updated_at = now\<rparr>
             in Inr (db\<lparr>rows := rows db @ [r], sqlite_sequence := m + 1\<rparr>,
                     to_number (m + 1)))"

text \<open>A row as the driver hands it to JavaScript: its 64-bit id becomes a number.\<close>

definition js_row :: "Donation \<Rightarrow> Donation" where
  "js_row r = r\<lparr>rowid := to_number (rowid r)\<rparr>"

text \<open>\<^verbatim>\<open>SELECT * FROM donations WHERE id = ?\<close> through \<^verbatim>\<open>db.get\<close>: the first matching
  row, or \<^verbatim>\<open>undefined\<close>. The id bound to \<^verbatim>\<open>?\<close> is a number; SQLite compares it with the
  stored ids exactly.\<close>

definition sql_get :: "bool \<Rightarrow> int \<Rightarrow> database \<Rightarrow> sqlite_error + Donation option" where
  "sql_get flt k db =
     (if flt then Inl SQLITE_IOERR
      else Inr (map_option js_row (find (\<lambda>r. rowid r = k) (rows db))))"

text \<open>The list \<^verbatim>\<open>fields\<close>: \<^verbatim>\<open>Object.keys(updates).filter(key => updates[key] !== undefined)\<close>.\<close>

definition update_fields :: "UpdateDonationInput \<Rightarrow> string list" where
  "update_fields u =
     (if u_donor_name u \<noteq> None then [''donor_name''] else [])
     @ (if u_donation_type u \<noteq> None then [''donation_type''] else [])
     @ (if u_quantity u \<noteq> None then [''quantity''] else [])
     @ (if u_date u \<noteq> None then [''date''] else [])"

text \<open>The \<^verbatim>\<open>SET\<close> clause built from the supplied fields, followed by
  \<^verbatim>\<open>updated_at = CURRENT_TIMESTAMP\<close>.\<close>

definition set_clause :: "UpdateDonationInput \<Rightarrow> nat \<Rightarrow> Donation \<Rightarrow> Donation" where
  "set_clause u now r =
     r\<lparr>donor_name := (case u_donor_name u of None \<Rightarrow> donor_name r | Some v \<Rightarrow> v),
       donation_type := (case u_donation_type u of None \<Rightarrow> donation_type r | Some v \<Rightarrow> v),
       quantity := (case u_quantity u of None \<Rightarrow> quantity r | Some v \<Rightarrow> v),
       date := (case u_date u of None \<Rightarrow> date r | Some v \<Rightarrow> v),
       updated_at := now\<rparr>"

text \<open>\<^verbatim>\<open>UPDATE donations SET ..., updated_at = CURRENT_TIMESTAMP WHERE id = ?\<close>. The
  \<^verbatim>\<open>CHECK\<close> clauses are tested on every row the statement rewrites. The result holds
  \<^verbatim>\<open>this.changes\<close>.\<close>

definition sql_update ::
  "bool \<Rightarrow> nat \<Rightarrow> int \<Rightarrow> UpdateDonationInput \<Rightarrow> database \<Rightarrow> sqlite_error + (database \<times> nat)" where
  "sql_update flt now k u db =
     (if flt then Inl SQLITE_IOERR
      else
        let hit = filter (\<lambda>r. rowid r = k) (rows db)
        in if \<not> list_all (\<lambda>r. check_constraints (set_clause u now r)) hit
           then Inl SQLITE_CONSTRAINT
           else Inr (db\<lparr>rows := map (\<lambda>r. if rowid r = k then set_clause u now r else r) (rows db)\<rparr>,
                     length hit))"

text \<open>\<^verbatim>\<open>DELETE FROM donations WHERE id = ?\<close>.\<close>

definition sql_delete :: "bool \<Rightarrow> int \<Rightarrow> database \<Rightarrow> sqlite_error + (database \<times> nat)" where
  "sql_delete flt k db =
     (if flt then Inl SQLITE_IOERR
      else Inr (db\<lparr>rows := filter (\<lambda>r. rowid r \<noteq> k) (rows db)\<rparr>,
                length (filter (\<lambda>r. rowid r = k) (rows db))))"

subsection \<open>Store: the operations of \<^verbatim>\<open>database.ts\<close>\<close>

definition createDonation ::
  "bool list \<Rightarrow> nat \<Rightarrow> CreateDonationInput \<Rightarrow> database \<Rightarrow> (string + Donation option) \<times> database" where
  "createDonation fs now d db =
     (case sql_insert (fault fs 0) now d db of
        Inl err \<Rightarrow> (Inl ''Failed to create donation'', db)
      | Inr (db', lastID) \<Rightarrow>
          (case sql_get (fault fs 1) lastID db' of
             Inl selectErr \<Rightarrow> (Inl ''Failed to retrieve created donation'', db')
           | Inr row \<Rightarrow> (Inr row, db')))"

definition updateDonation ::
  "bool list \<Rightarrow> nat \<Rightarrow> int \<Rightarrow> UpdateDonationInput \<Rightarrow> database
     \<Rightarrow> (string + Donation option) \<times> database" where
  "updateDonation fs now k u db =
     (if length (update_fields u) = 0 then (Inl ''No fields provided for update'', db)
      else
        (case sql_update (fault fs 0) now k u db of
           Inl err \<Rightarrow> (Inl ''Failed to update donation'', db)
         | Inr (db', changes) \<Rightarrow>
             if changes = 0 then (Inr None, db')
             else
               (case sql_get (fault fs 1) k db' of
                  Inl selectErr \<Rightarrow> (Inl ''Failed to retrieve updated donation'', db')
                | Inr row \<Rightarrow> (Inr row, db'))))"

definition deleteDonation :: "bool list \<Rightarrow> int \<Rightarrow> database \<Rightarrow> (string + bool) \<times> database" where
  "deleteDonation fs k db =
     (case sql_delete (fault fs 0) k db of
        Inl err \<Rightarrow> (Inl ''Failed to delete donation'', db)
      | Inr (db', changes) \<Rightarrow> if changes = 0 then (Inr False, db') else (Inr True, db'))"

definition getDonationById :: "bool list \<Rightarrow> int \<Rightarrow> database \<Rightarrow> string + Donation option" where
  "getDonationById fs k db =
     (case sql_get (fault fs 0) k db of
        Inl err \<Rightarrow> Inl ''Failed to fetch donation''
      | Inr row \<Rightarrow> Inr row)"

subsection \<open>\<^verbatim>\<open>parseInt\<close>\<close>

text \<open>\<^verbatim>\<open>parseInt(string)\<close> with no radix: skip leading white space, read a sign, read the
  prefix \<^verbatim>\<open>0x\<close> or \<^verbatim>\<open>0X\<close> as radix 16, take the longest run of digits of the radix;
  \<open>None\<close> is \<^verbatim>\<open>NaN\<close>. The result is a number: the value of the digits, rounded.\<close>

definition is_digit :: "char \<Rightarrow> bool" where
  "is_digit c \<longleftrightarrow> 48 \<le> (of_char c :: nat) \<and> (of_char c :: nat) \<le> 57"

definition is_hex_digit :: "char \<Rightarrow> bool" where
  "is_hex_digit c \<longleftrightarrow>
     is_digit c \<or> (65 \<le> (of_char c :: nat) \<and> (of_char c :: nat) \<le> 70)
     \<or> (97 \<le> (of_char c :: nat) \<and> (of_char c :: nat) \<le> 102)"

definition digit_value :: "char \<Rightarrow> nat" where
  "digit_value c =
     (let n = (of_char c :: nat)
      in if n \<le> 57 then n - 48 else if n \<le> 70 then n - 55 else n - 87)"

definition digits_value :: "nat \<Rightarrow> string \<Rightarrow> nat" where
  "digits_value radix z = foldl (\<lambda>acc c. acc * radix + digit_value c) 0 z"

definition parseInt :: "string \<Rightarrow> int option" where
  "parseInt s =
     (let S = dropWhile is_white_space s;
          sign = (if S \<noteq> [] \<and> hd S = CHR ''-'' then - 1 else 1 :: int);
          S1 = (if S \<noteq> [] \<and> (hd S = CHR ''+'' \<or> hd S = CHR ''-'') then tl S else S);
          hex = (take 2 S1 = ''0x'' \<or> take 2 S1 = ''0X'');
          S2 = (if hex then drop 2 S1 else S1);
          Z = takeWhile (if hex then is_hex_digit else is_digit) S2
      in if Z = [] then None
         else Some (to_number (sign * int (digits_value (if hex then 16 else 10) Z))))"

subsection \<open>The handlers of \<^verbatim>\<open>routes.ts\<close>\<close>

record response =
  status :: nat
  success :: bool
  data :: "Donation option"
  message :: string
  errors :: "string list option"

definition failure :: "nat \<Rightarrow> string \<Rightarrow> response" where
  "failure code msg =
     \<lparr>status = code, success = False, data = None, message = msg, errors = None\<rparr>"

text \<open>\<^verbatim>\<open>issues.map(err => `${err.path.join('.')}: ${err.message}`)\<close>.\<close>

definition issue_text :: "issue \<Rightarrow> string" where
  "issue_text i = (case i of Issue p m \<Rightarrow> p @ '': '' @ m)"

definition validation_failed :: "issue list \<Rightarrow> response" where
  "validation_failed is =
     \<lparr>status = 400, success = False, data = None, message = ''Validation failed'',
      errors = Some (map issue_text is)\<rparr>"

text \<open>In the three handlers that take an id, \<^verbatim>\<open>isNaN(donationId) || donationId <= 0\<close>
  is the \<open>None\<close> case of \<open>parseInt\<close> followed by the test \<open>donationId \<le> 0\<close>.\<close>

text \<open>\<^verbatim>\<open>POST /donations\<close>.\<close>

definition post_donations ::
  "(string \<Rightarrow> bool) \<Rightarrow> bool list \<Rightarrow> nat \<Rightarrow> body \<Rightarrow> database \<Rightarrow> response \<times> database" where
  "post_donations dp fs now b db =
     (case CreateDonationSchema dp b of
        Inl is \<Rightarrow> (validation_failed is, db)
      | Inr donationData \<Rightarrow>
          (case createDonation fs now donationData db of
             (Inl e, db') \<Rightarrow> (failure 500 ''Failed to create donation'', db')
           | (Inr newDonation, db') \<Rightarrow>
               (\<lparr>status = 201, success = True, data = newDonation,
                 message = ''Donation created successfully'', errors = None\<rparr>, db')))"

text \<open>\<^verbatim>\<open>PUT /donations/:id\<close>.\<close>

definition put_donation ::
  "(string \<Rightarrow> bool) \<Rightarrow> bool list \<Rightarrow> nat \<Rightarrow> string \<Rightarrow> body \<Rightarrow> database \<Rightarrow> response \<times> database" where
  "put_donation dp fs now idp b db =
     (case parseInt idp of
        None \<Rightarrow> (failure 400 ''Invalid donation ID'', db)
      | Some donationId \<Rightarrow>
         if donationId \<le> 0 then (failure 400 ''Invalid donation ID'', db)
         else
           (case UpdateDonationSchema dp b of
              Inl is \<Rightarrow> (validation_failed is, db)
            | Inr updateData \<Rightarrow>
                (case getDonationById fs donationId db of
                   Inl e \<Rightarrow> (failure 500 ''Failed to update donation'', db)
                 | Inr None \<Rightarrow> (failure 404 ''Donation not found'', db)
                 | Inr (Some existingDonation) \<Rightarrow>
                     (case updateDonation (drop 1 fs) now donationId updateData db of
                        (Inl e, db') \<Rightarrow> (failure 500 ''Failed to update donation'', db')
                      | (Inr None, db') \<Rightarrow> (failure 404 ''Donation not found'', db')
                      | (Inr (Some updatedDonation), db') \<Rightarrow>
                          (\<lparr>status = 200, success = True, data = Some updatedDonation,
                            message = ''Donation updated successfully'', errors = None\<rparr>,
                           db')))))"

text \<open>\<^verbatim>\<open>DELETE /donations/:id\<close>.\<close>

definition delete_donation :: "bool list \<Rightarrow> string \<Rightarrow> database \<Rightarrow> response \<times> database" where
  "delete_donation fs idp db =
     (case parseInt idp of
        None \<Rightarrow> (failure 400 ''Invalid donation ID'', db)
      | Some donationId \<Rightarrow>
         if donationId \<le> 0 then (failure 400 ''Invalid donation ID'', db)
         else
           (case getDonationById fs donationId db of
              Inl e \<Rightarrow> (failure 500 ''Failed to delete donation'', db)
            | Inr None \<Rightarrow> (failure 404 ''Donation not found'', db)
            | Inr (Some existingDonation) \<Rightarrow>
                (case deleteDonation (drop 1 fs) donationId db of
                   (Inl e, db') \<Rightarrow> (failure 500 ''Failed to delete donation'', db')
                 | (Inr False, db') \<Rightarrow> (failure 404 ''Donation not found'', db')
                 | (Inr True, db') \<Rightarrow>
                     (\<lparr>status = 200, success = True, data = None,
                       message = ''Donation deleted successfully'', errors = None\<rparr>, db'))))"

text \<open>\<^verbatim>\<open>GET /donations/:id\<close>.\<close>

definition get_donation :: "bool list \<Rightarrow> string \<Rightarrow> database \<Rightarrow> response" where
  "get_donation fs idp db =
     (case parseInt idp of
        None \<Rightarrow> failure 400 ''Invalid donation ID''
      | Some donationId \<Rightarrow>
         if donationId \<le> 0 then failure 400 ''Invalid donation ID''
         else
           (case getDonationById fs donationId db of
              Inl e \<Rightarrow> failure 500 ''Failed to retrieve donation''
            | Inr None \<Rightarrow> failure 404 ''Donation not found''
            | Inr (Some donation) \<Rightarrow>
                \<lparr>status = 200, success = True, data = Some donation,
                 message = ''Donation retrieved successfully'', errors = None\<rparr>))"

subsection \<open>Histories of the Store\<close>

text \<open>A history is a list of calls to the Store; \<open>created\<close> collects, in order, the records
  that the successful creates of a history returned.\<close>

datatype call =
    Create "bool list" nat CreateDonationInput
  | Update "bool list" nat int UpdateDonationInput
  | Delete "bool list" int

fun created :: "call list \<Rightarrow> database \<Rightarrow> Donation list" where
  "created [] db = []"
| "created (Create fs now d # cs) db =
     (case createDonation fs now d db of
        (Inr (Some r), db') \<Rightarrow> r # created cs db'
      | (_, db') \<Rightarrow> created cs db')"
| "created (Update fs now k u # cs) db = created cs (snd (updateDonation fs now k u db))"
| "created (Delete fs k # cs) db = created cs (snd (deleteDonation fs k db))"

definition known_keys :: "string set" where
  "known_keys = {''donor_name'', ''donation_type'', ''quantity'', ''date''}"

text \<open>What a Store operation resolved with, as a list: the returned record, if any.\<close>

definition returned :: "(string + Donation option) \<Rightarrow> Donation list" where
  "returned res = (case res of Inr (Some r) \<Rightarrow> [r] | _ \<Rightarrow> [])"

text \<open>The table as \<^verbatim>\<open>AUTOINCREMENT\<close> keeps it: no row has an id beyond the counter. The
  empty table is so, and every operation keeps it so.\<close>

definition ids_issued :: "database \<Rightarrow> bool" where
  "ids_issued db \<longleftrightarrow> list_all (\<lambda>r. rowid r \<le> sqlite_sequence db) (rows db)"

subsection \<open>Example data\<close>

text \<open>The record of the specification's scenario A, the empty table, and the table after
  that record was created at time \<open>100\<close>.\<close>

definition smith :: CreateDonationInput where
  "smith = \<lparr>donor_name = ''A. Smith'', donation_type = ''food'', quantity = 12,
             date = ''2024-03-01''\<rparr>"

definition smith_row :: "nat \<Rightarrow> Donation" where
  "smith_row t = \<lparr>donor_name = ''A. Smith'', donation_type = ''food'', quantity = 12,
                   date = ''2024-03-01'', rowid = 1, created_at = 100, updated_at = t\<rparr>"

definition db0 :: database where
  "db0 = \<lparr>rows = [], sqlite_sequence = 0\<rparr>"

definition db1 :: database where
  "db1 = \<lparr>rows = [smith_row 100], sqlite_sequence = 1\<rparr>"

definition smith_body :: "string \<Rightarrow> body" where
  "smith_body n = [''donor_name'' \<mapsto> JStr n, ''donation_type'' \<mapsto> JStr ''food'',
                   ''quantity'' \<mapsto> JNum 12, ''date'' \<mapsto> JStr ''2024-03-01'']"

definition iso_date :: "string \<Rightarrow> bool" where
  "iso_date s \<longleftrightarrow> length s = 10 \<and> s ! 4 = CHR ''-'' \<and> s ! 7 = CHR ''-''"

definition no_fields :: UpdateDonationInput where
  "no_fields = \<lparr>u_donor_name = None, u_donation_type = None, u_quantity = None, u_date = None\<rparr>"

definition quantity_20 :: UpdateDonationInput where
  "quantity_20 = \<lparr>u_donor_name = None, u_donation_type = None, u_quantity = Some 20,
                   u_date = None\<rparr>"

text \<open>A table seeded with a record whose id is \<open>2 ^ 53\<close>, the counter at that id.\<close>

definition big_row :: Donation where
  "big_row = (smith_row 100)\<lparr>rowid := 9007199254740992\<rparr>"

definition db_big :: database where
  "db_big = \<lparr>rows = [big_row], sqlite_sequence = 9007199254740992\<rparr>"

definition quantity_body :: body where
  "quantity_body = [''quantity'' \<mapsto> JNum 20]"

definition empty_body :: body where
  "empty_body = Map.empty"

definition extra_body :: body where
  "extra_body = (smith_body ''A. Smith'')(''id'' \<mapsto> JNum 99,
                                            ''created_at'' \<mapsto> JStr ''1999-01-01'')"

definition history :: "call list" where
  "history = [Create [] 100 smith, Delete [] 1, Create [] 200 smith]"

section \<open>Properties\<close>

subsection \<open>Numbers and rows\<close>

lemma to_number_exact: "0 \<le> i \<Longrightarrow> i \<le> 2 ^ 53 \<Longrightarrow> to_number i = i"
proof -
  assume a: "0 \<le> i" and b: "i \<le> 2 ^ 53"
  from a b have "nat i \<le> 2 ^ 53" by (simp add: nat_le_iff)
  with a show ?thesis by (simp add: to_number_def round_double_def)
qed

lemma to_number_nonpos: "i \<le> 0 \<Longrightarrow> to_number i \<le> 0"
  by (simp add: to_number_def round_double_def)

lemma js_row_exact: "0 \<le> rowid r \<Longrightarrow> rowid r \<le> 2 ^ 53 \<Longrightarrow> js_row r = r"
  by (simp add: js_row_def to_number_exact)

lemma js_row_fields [simp]:
  "donor_name (js_row r) = donor_name r" "donation_type (js_row r) = donation_type r"
  "quantity (js_row r) = quantity r" "date (js_row r) = date r"
  "created_at (js_row r) = created_at r" "updated_at (js_row r) = updated_at r"
  by (simp_all add: js_row_def)

lemmas parse_defs = parseInt_def is_white_space_def is_digit_def digits_value_def
  digit_value_def to_number_def round_double_def

lemmas row_defs = js_row_def to_number_def round_double_def

text \<open>The model rounds as the engine does. The id \<open>2 ^ 53 + 1\<close> is read as \<open>2 ^ 53\<close>, so
  that \<^verbatim>\<open>GET /donations/9007199254740993\<close> returns the record \<open>2 ^ 53\<close>; and a create at
  the counter \<open>2 ^ 53\<close> inserts the row \<open>2 ^ 53 + 1\<close> but returns, through the rounded
  \<^verbatim>\<open>this.lastID\<close>, the older record. This is why the properties of ids below are stated
  up to \<open>2 ^ 53\<close>.\<close>

lemma to_number_rounds: "to_number 9007199254740993 = 9007199254740992"
proof -
  have b: "bit_length 9007199254740993 = 54" by (simp add: bit_length.simps)
  show ?thesis by (simp add: to_number_def round_double_def b Let_def)
qed

lemma parseInt_rounds: "parseInt ''9007199254740993'' = Some 9007199254740992"
proof -
  have v: "digits_value 10 ''9007199254740993'' = 9007199254740993"
    by (simp add: digits_value_def digit_value_def)
  have "parseInt ''9007199254740993'' = Some (to_number (int (digits_value 10 ''9007199254740993'')))"
    by (simp add: parseInt_def is_white_space_def is_digit_def)
  with v to_number_rounds show ?thesis by simp
qed

lemma get_donation_rounds:
  "get_donation [] ''9007199254740993'' db_big =
     \<lparr>status = 200, success = True, data = Some big_row,
      message = ''Donation retrieved successfully'', errors = None\<rparr>"
  by (simp add: get_donation_def parseInt_rounds getDonationById_def sql_get_def fault_def
      db_big_def big_row_def smith_row_def row_defs)

lemma createDonation_rounds:
  "createDonation [] 200 smith db_big =
     (Inr (Some big_row),
      db_big\<lparr>rows := [big_row, (smith_row 200)\<lparr>rowid := 9007199254740993, created_at := 200\<rparr>],
              sqlite_sequence := 9007199254740993\<rparr>)"
  by (simp add: createDonation_def sql_insert_def sql_get_def fault_def check_constraints_def
      sqlite_length_def DonationType_def smith_def to_number_rounds
      db_big_def big_row_def smith_row_def js_row_def)
     (simp add: to_number_def round_double_def)

subsection \<open>The sequence of ids\<close>

lemma fold_max_ge: "(s::int) \<le> fold max xs s"
  by (induction xs arbitrary: s) (auto intro: order_trans [OF max.cobounded2])

lemma fold_max_mem: "x \<in> set xs \<Longrightarrow> (x::int) \<le> fold max xs s"
proof (induction xs arbitrary: s)
  case Nil
  then show ?case by simp
next
  case (Cons a xs)
  show ?case
  proof (cases "x = a")
    case True
    have "a \<le> max a s" by simp
    also have "\<dots> \<le> fold max xs (max a s)" by (rule fold_max_ge)
    finally show ?thesis using True by simp
  next
    case False
    with Cons show ?thesis by simp
  qed
qed

lemma sql_insert_Inr:
  assumes "sql_insert flt now d db = Inr (db', k)"
  shows "k = to_number (fold max (map rowid (rows db)) (sqlite_sequence db) + 1)"
    and "db' = db\<lparr>rows := rows db @ [\<lparr>donor_name = donor_name d, donation_type = donation_type d,
                      quantity = quantity d, date = date d,
                      rowid = fold max (map rowid (rows db)) (sqlite_sequence db) + 1,
                      created_at = now, updated_at = now\<rparr>],
                  sqlite_sequence := fold max (map rowid (rows db)) (sqlite_sequence db) + 1\<rparr>"
    and "check_constraints d"
  using assms by (auto simp: sql_insert_def Let_def split: if_splits)

lemma find_fresh:
  assumes "\<forall>x\<in>set xs. rowid x \<noteq> rowid r"
  shows "find (\<lambda>x. rowid x = rowid r) (xs @ [r]) = Some r"
  using assms by (induction xs) auto

text \<open>While the ids stay within \<open>2 ^ 53\<close>, the \<^verbatim>\<open>SELECT\<close> by \<^verbatim>\<open>this.lastID\<close> finds the row
  just inserted.\<close>

lemma createDonation_new_row:
  assumes m0: "0 \<le> fold max (map rowid (rows db)) (sqlite_sequence db)"
    and m1: "fold max (map rowid (rows db)) (sqlite_sequence db) < 2 ^ 53"
    and c: "check_constraints d" and f0: "\<not> fault fs 0" and f1: "\<not> fault fs 1"
  shows "createDonation fs now d db =
     (Inr (Some \<lparr>donor_name = donor_name d, donation_type = donation_type d,
                 quantity = quantity d, date = date d,
                 rowid = fold max (map rowid (rows db)) (sqlite_sequence db) + 1,
                 created_at = now, updated_at = now\<rparr>),
      db\<lparr>rows := rows db @ [\<lparr>donor_name = donor_name d, donation_type = donation_type d,
                 quantity = quantity d, date = date d,
                 rowid = fold max (map rowid (rows db)) (sqlite_sequence db) + 1,
                 created_at = now, updated_at = now\<rparr>],
         sqlite_sequence := fold max (map rowid (rows db)) (sqlite_sequence db) + 1\<rparr>)"
proof -
  let ?m = "fold max (map rowid (rows db)) (sqlite_sequence db)"
  let ?r = "\<lparr>donor_name = donor_name d, donation_type = donation_type d,
             quantity = quantity d, date = date d,
             rowid = ?m + 1, created_at = now, updated_at = now\<rparr>"
  have e: "to_number (?m + 1) = ?m + 1"
    using m0 m1 by (intro to_number_exact) simp_all
  have "\<forall>x\<in>set (rows db). rowid x \<noteq> rowid ?r"
  proof
    fix x assume "x \<in> set (rows db)"
    then have "rowid x \<le> ?m" by (intro fold_max_mem) simp
    then show "rowid x \<noteq> rowid ?r" by simp
  qed
  then have f: "find (\<lambda>x. rowid x = rowid ?r) (rows db @ [?r]) = Some ?r"
    by (rule find_fresh)
  have j: "js_row ?r = ?r"
    using m0 m1 by (intro js_row_exact) simp_all
  have i: "sql_insert (fault fs 0) now d db =
      Inr (db\<lparr>rows := rows db @ [?r], sqlite_sequence := ?m + 1\<rparr>, ?m + 1)"
    using c f0 m1 e by (simp add: sql_insert_def Let_def)
  from f have g: "sql_get (fault fs 1) (?m + 1) (db\<lparr>rows := rows db @ [?r], sqlite_sequence := ?m + 1\<rparr>)
      = Inr (Some ?r)"
    using f1 j by (simp add: sql_get_def)
  show ?thesis unfolding createDonation_def i using g by simp
qed

lemma createDonation_Some:
  assumes "createDonation fs now d db = (Inr (Some r), db')"
    and m0: "0 \<le> fold max (map rowid (rows db)) (sqlite_sequence db)"
    and m1: "fold max (map rowid (rows db)) (sqlite_sequence db) < 2 ^ 53"
  shows "r = \<lparr>donor_name = donor_name d, donation_type = donation_type d,
               quantity = quantity d, date = date d,
               rowid = fold max (map rowid (rows db)) (sqlite_sequence db) + 1,
               created_at = now, updated_at = now\<rparr>"
    and "db' = db\<lparr>rows := rows db @ [r], sqlite_sequence := rowid r\<rparr>"
    and "check_constraints d"
proof -
  from assms(1) obtain dbi k where i: "sql_insert (fault fs 0) now d db = Inr (dbi, k)"
    and g: "sql_get (fault fs 1) k dbi = Inr (Some r)"
    by (auto simp: createDonation_def split: sum.splits prod.splits)
  from i have f0: "\<not> fault fs 0" by (auto simp: sql_insert_def split: if_splits)
  from g have f1: "\<not> fault fs 1" by (auto simp: sql_get_def split: if_splits)
  from sql_insert_Inr(3) [OF i] have c: "check_constraints d" .
  note n = createDonation_new_row [OF m0 m1 c f0 f1, of now]
  from n assms(1) show "r = \<lparr>donor_name = donor_name d, donation_type = donation_type d,
               quantity = quantity d, date = date d,
               rowid = fold max (map rowid (rows db)) (sqlite_sequence db) + 1,
               created_at = now, updated_at = now\<rparr>"
    by simp
  from n assms(1) show "db' = db\<lparr>rows := rows db @ [r], sqlite_sequence := rowid r\<rparr>"
    by simp
  show "check_constraints d" by (rule c)
qed

lemma createDonation_state:
  "snd (createDonation fs now d db) = db
   \<or> (\<exists>r. snd (createDonation fs now d db) = db\<lparr>rows := rows db @ [r], sqlite_sequence := rowid r\<rparr>
        \<and> rowid r = fold max (map rowid (rows db)) (sqlite_sequence db) + 1
        \<and> check_constraints r \<and> check_constraints d \<and> created_at r = updated_at r)"
proof (cases "sql_insert (fault fs 0) now d db")
  case (Inl e)
  then show ?thesis by (simp add: createDonation_def)
next
  case (Inr p)
  obtain dbi k where p: "p = (dbi, k)" by (cases p)
  let ?m = "fold max (map rowid (rows db)) (sqlite_sequence db)"
  let ?r = "\<lparr>donor_name = donor_name d, donation_type = donation_type d,
                      quantity = quantity d, date = date d,
                      rowid = ?m + 1, created_at = now, updated_at = now\<rparr>"
  from sql_insert_Inr [OF Inr [unfolded p]]
  have dbi: "dbi = db\<lparr>rows := rows db @ [?r], sqlite_sequence := ?m + 1\<rparr>"
    and c: "check_constraints d" by simp_all
  have s: "snd (createDonation fs now d db) = dbi"
    using Inr p by (simp add: createDonation_def split: sum.splits)
  have "check_constraints ?r" using c by (simp add: check_constraints_def)
  with s dbi c have "snd (createDonation fs now d db) = db\<lparr>rows := rows db @ [?r], sqlite_sequence := rowid ?r\<rparr>
        \<and> rowid ?r = ?m + 1
        \<and> check_constraints ?r \<and> check_constraints d \<and> created_at ?r = updated_at ?r"
    by simp
  then show ?thesis by blast
qed

lemma ids_issued_fold: "ids_issued db \<Longrightarrow> fold max (map rowid (rows db)) (sqlite_sequence db) = sqlite_sequence db"
proof -
  assume a: "ids_issued db"
  have "list_all (\<lambda>r. rowid r \<le> s) xs \<Longrightarrow> fold max (map rowid xs) s = s" for xs and s :: int
    by (induction xs) (auto simp: max_def)
  with a show ?thesis by (simp add: ids_issued_def)
qed

lemma ids_issued_create:
  assumes "ids_issued db"
  shows "ids_issued (snd (createDonation fs now d db))"
    and "sqlite_sequence db \<le> sqlite_sequence (snd (createDonation fs now d db))"
    and "sqlite_sequence (snd (createDonation fs now d db)) \<le> sqlite_sequence db + 1"
proof -
  from createDonation_state [of fs now d db]
  consider "snd (createDonation fs now d db) = db"
    | r where "snd (createDonation fs now d db) = db\<lparr>rows := rows db @ [r], sqlite_sequence := rowid r\<rparr>"
        "rowid r = fold max (map rowid (rows db)) (sqlite_sequence db) + 1"
    by blast
  then have "ids_issued (snd (createDonation fs now d db))
      \<and> sqlite_sequence db \<le> sqlite_sequence (snd (createDonation fs now d db))
      \<and> sqlite_sequence (snd (createDonation fs now d db)) \<le> sqlite_sequence db + 1"
  proof cases
    case 1
    with assms show ?thesis by simp
  next
    case 2
    with assms ids_issued_fold [OF assms] show ?thesis
      by (auto simp: ids_issued_def list_all_iff)
  qed
  then show "ids_issued (snd (createDonation fs now d db))"
    and "sqlite_sequence db \<le> sqlite_sequence (snd (createDonation fs now d db))"
    and "sqlite_sequence (snd (createDonation fs now d db)) \<le> sqlite_sequence db + 1"
    by simp_all
qed

lemma rowid_set_clause [simp]: "rowid (set_clause u now r) = rowid r"
  by (simp add: set_clause_def)

lemma updateDonation_state:
  "snd (updateDonation fs now k u db) = db
   \<or> snd (updateDonation fs now k u db) =
       db\<lparr>rows := map (\<lambda>r. if rowid r = k then set_clause u now r else r) (rows db)\<rparr>"
  by (simp add: updateDonation_def sql_update_def Let_def split: sum.splits)

lemma ids_issued_update:
  assumes "ids_issued db"
  shows "ids_issued (snd (updateDonation fs now k u db))"
    and "sqlite_sequence (snd (updateDonation fs now k u db)) = sqlite_sequence db"
  using assms updateDonation_state [of fs now k u db]
  by (auto simp: ids_issued_def list_all_iff)

lemma deleteDonation_state:
  "snd (deleteDonation fs k db) = db
   \<or> snd (deleteDonation fs k db) = db\<lparr>rows := filter (\<lambda>r. rowid r \<noteq> k) (rows db)\<rparr>"
  by (simp add: deleteDonation_def sql_delete_def)

lemma ids_issued_delete:
  assumes "ids_issued db"
  shows "ids_issued (snd (deleteDonation fs k db))"
    and "sqlite_sequence (snd (deleteDonation fs k db)) = sqlite_sequence db"
  using assms deleteDonation_state [of fs k db]
  by (auto simp: ids_issued_def list_all_iff)

lemma created_Create:
  "created (Create fs now d # cs) db =
     returned (fst (createDonation fs now d db)) @ created cs (snd (createDonation fs now d db))"
  by (cases "createDonation fs now d db")
     (auto simp: returned_def split: sum.splits option.splits)

lemma returned_create:
  assumes "ids_issued db" and "0 \<le> sqlite_sequence db" and "sqlite_sequence db < 2 ^ 53"
    and "x \<in> set (returned (fst (createDonation fs now d db)))"
  shows "rowid x = sqlite_sequence db + 1" and "created_at x = updated_at x"
    and "sqlite_sequence (snd (createDonation fs now d db)) = rowid x"
proof -
  obtain res db' where c: "createDonation fs now d db = (res, db')"
    by (cases "createDonation fs now d db")
  with assms(4) have x: "res = Inr (Some x)"
    by (auto simp: returned_def split: sum.splits option.splits)
  note m = ids_issued_fold [OF assms(1)]
  from assms(2,3) m have m0: "0 \<le> fold max (map rowid (rows db)) (sqlite_sequence db)"
    and m1: "fold max (map rowid (rows db)) (sqlite_sequence db) < 2 ^ 53" by simp_all
  note f = createDonation_Some [OF c [unfolded x] m0 m1]
  from f(1) m
  show "rowid x = sqlite_sequence db + 1" and "created_at x = updated_at x" by simp_all
  from f(2) c show "sqlite_sequence (snd (createDonation fs now d db)) = rowid x" by simp
qed

lemma created_bound:
  "ids_issued db \<Longrightarrow> 0 \<le> sqlite_sequence db \<Longrightarrow>
   sqlite_sequence db + int (length cs) \<le> 2 ^ 53 \<Longrightarrow> r \<in> set (created cs db) \<Longrightarrow>
     sqlite_sequence db < rowid r \<and> created_at r = updated_at r"
proof (induction cs arbitrary: db)
  case Nil
  then show ?case by simp
next
  case (Cons c cs)
  from Cons.prems(3) have lt: "sqlite_sequence db < 2 ^ 53"
    and le: "sqlite_sequence db + 1 + int (length cs) \<le> 2 ^ 53" by simp_all
  show ?case
  proof (cases c)
    case (Create fs now d)
    let ?db' = "snd (createDonation fs now d db)"
    note ok = ids_issued_create [OF Cons.prems(1), of fs now d]
    from ok(2) Cons.prems(2) have p: "0 \<le> sqlite_sequence ?db'" by simp
    from ok(3) le have b: "sqlite_sequence ?db' + int (length cs) \<le> 2 ^ 53" by simp
    from Cons.prems(4) Create
    have "r \<in> set (returned (fst (createDonation fs now d db))) \<or> r \<in> set (created cs ?db')"
      by (simp add: created_Create del: created.simps)
    then show ?thesis
    proof
      assume "r \<in> set (returned (fst (createDonation fs now d db)))"
      from returned_create(1,2) [OF Cons.prems(1,2) lt this] show ?thesis by simp
    next
      assume "r \<in> set (created cs ?db')"
      from Cons.IH [OF ok(1) p b this] ok(2) show ?thesis by simp
    qed
  next
    case (Update fs now k u)
    note ok = ids_issued_update [OF Cons.prems(1), of fs now k u]
    from Cons.prems(4) Update have "r \<in> set (created cs (snd (updateDonation fs now k u db)))"
      by simp
    from Cons.IH [OF ok(1) _ _ this] ok(2) Cons.prems(2) le show ?thesis by simp
  next
    case (Delete fs k)
    note ok = ids_issued_delete [OF Cons.prems(1), of fs k]
    from Cons.prems(4) Delete have "r \<in> set (created cs (snd (deleteDonation fs k db)))"
      by simp
    from Cons.IH [OF ok(1) _ _ this] ok(2) Cons.prems(2) le show ?thesis by simp
  qed
qed

lemma created_sorted:
  "ids_issued db \<Longrightarrow> 0 \<le> sqlite_sequence db \<Longrightarrow>
   sqlite_sequence db + int (length cs) \<le> 2 ^ 53 \<Longrightarrow>
     sorted_wrt (\<lambda>a b. rowid a < rowid b) (created cs db)"
proof (induction cs arbitrary: db)
  case Nil
  then show ?case by simp
next
  case (Cons c cs)
  from Cons.prems(3) have lt: "sqlite_sequence db < 2 ^ 53"
    and le: "sqlite_sequence db + 1 + int (length cs) \<le> 2 ^ 53" by simp_all
  show ?case
  proof (cases c)
    case (Create fs now d)
    let ?db' = "snd (createDonation fs now d db)"
    let ?ret = "returned (fst (createDonation fs now d db))"
    note ok = ids_issued_create [OF Cons.prems(1), of fs now d]
    from ok(2) Cons.prems(2) have p: "0 \<le> sqlite_sequence ?db'" by simp
    from ok(3) le have b: "sqlite_sequence ?db' + int (length cs) \<le> 2 ^ 53" by simp
    have 1: "sorted_wrt (\<lambda>a b. rowid a < rowid b) (created cs ?db')"
      by (rule Cons.IH [OF ok(1) p b])
    have 2: "sorted_wrt (\<lambda>a b. rowid a < rowid b) ?ret"
      by (simp add: returned_def split: sum.splits option.splits)
    have 3: "\<forall>x\<in>set ?ret. \<forall>y\<in>set (created cs ?db'). rowid x < rowid y"
    proof (intro ballI)
      fix x y assume x: "x \<in> set ?ret" and y: "y \<in> set (created cs ?db')"
      from returned_create(3) [OF Cons.prems(1,2) lt x] created_bound [OF ok(1) p b y]
      show "rowid x < rowid y" by simp
    qed
    from 1 2 3 Create show ?thesis
      by (simp add: created_Create sorted_wrt_append del: created.simps)
  next
    case (Update fs now k u)
    note ok = ids_issued_update [OF Cons.prems(1), of fs now k u]
    from ok(2) Cons.prems(2) le
    have "sorted_wrt (\<lambda>a b. rowid a < rowid b) (created cs (snd (updateDonation fs now k u db)))"
      by (intro Cons.IH [OF ok(1)]) simp_all
    with Update show ?thesis by simp
  next
    case (Delete fs k)
    note ok = ids_issued_delete [OF Cons.prems(1), of fs k]
    from ok(2) Cons.prems(2) le
    have "sorted_wrt (\<lambda>a b. rowid a < rowid b) (created cs (snd (deleteDonation fs k db)))"
      by (intro Cons.IH [OF ok(1)]) simp_all
    with Delete show ?thesis by simp
  qed
qed

subsection \<open>Create\<close>

text \<open>
  C8. From a table whose ids were all issued by the counter, and as long as the counter
  stays within \<open>2 ^ 53\<close>, the range in which an id is exact as a JavaScript number: a
  create with an input that passes the storage checks and a working medium returns the
  stored record, whose id is one more than the counter and whose \<open>created_at\<close> and
  \<open>updated_at\<close> are the same time. Over any history of creates, updates and deletes, the
  ids of the returned records strictly increase in the order of their creation (so none
  is used twice, deletes in between or not), each exceeds the counter and every id in
  the table the history started from, and each record has \<open>created_at = updated_at\<close>.
\<close>

theorem created_ids_fresh:
  "ids_issued db \<Longrightarrow> 0 \<le> sqlite_sequence db \<Longrightarrow>
   sqlite_sequence db + int (length cs) \<le> 2 ^ 53 \<Longrightarrow>
     (check_constraints d \<and> \<not> fault fs 0 \<and> \<not> fault fs 1 \<and> sqlite_sequence db < 2 ^ 53
      \<longrightarrow> (\<exists>r. createDonation fs now d db =
                 (Inr (Some r), db\<lparr>rows := rows db @ [r], sqlite_sequence := rowid r\<rparr>)
               \<and> rowid r = sqlite_sequence db + 1
               \<and> created_at r = now \<and> updated_at r = now))
     \<and> sorted_wrt (\<lambda>a b. rowid a < rowid b) (created cs db)
     \<and> (\<forall>r\<in>set (created cs db).
           created_at r = updated_at r \<and> sqlite_sequence db < rowid r
           \<and> (\<forall>x\<in>set (rows db). rowid x < rowid r))"
proof -
  assume ok: "ids_issued db" and p: "0 \<le> sqlite_sequence db"
    and b: "sqlite_sequence db + int (length cs) \<le> 2 ^ 53"
  let ?m = "fold max (map rowid (rows db)) (sqlite_sequence db)"
  let ?r = "\<lparr>donor_name = donor_name d, donation_type = donation_type d,
             quantity = quantity d, date = date d,
             rowid = ?m + 1, created_at = now, updated_at = now\<rparr>"
  have m: "?m = sqlite_sequence db" by (rule ids_issued_fold [OF ok])
  have one: "\<exists>r. createDonation fs now d db =
                 (Inr (Some r), db\<lparr>rows := rows db @ [r], sqlite_sequence := rowid r\<rparr>)
               \<and> rowid r = sqlite_sequence db + 1
               \<and> created_at r = now \<and> updated_at r = now"
    if h: "check_constraints d" "\<not> fault fs 0" "\<not> fault fs 1" "sqlite_sequence db < 2 ^ 53"
  proof -
    from p h(4) m have "0 \<le> ?m" "?m < 2 ^ 53" by simp_all
    from createDonation_new_row [OF this h(1,2,3), of now] m
    show ?thesis by (intro exI [of _ ?r]) simp
  qed
  have two: "sorted_wrt (\<lambda>a b. rowid a < rowid b) (created cs db)"
    by (rule created_sorted [OF ok p b])
  have three: "created_at r = updated_at r \<and> sqlite_sequence db < rowid r
           \<and> (\<forall>x\<in>set (rows db). rowid x < rowid r)" if r: "r \<in> set (created cs db)" for r
  proof -
    from created_bound [OF ok p b r]
    have c: "sqlite_sequence db < rowid r" and t: "created_at r = updated_at r" by simp_all
    from ok c have "\<forall>x\<in>set (rows db). rowid x < rowid r"
      by (auto simp: ids_issued_def list_all_iff)
    with c t show ?thesis by simp
  qed
  from one two three show ?thesis by blast
qed

theorem created_ids_fresh_witness:
  "ids_issued db0
   \<and> createDonation [] 100 smith db0 = (Inr (Some (smith_row 100)), db1)
   \<and> sorted_wrt (\<lambda>a b. rowid a < rowid b) (created history db0)
   \<and> map rowid (created history db0) = [1, 2]"
proof -
  have ok: "ids_issued db0" by (simp add: ids_issued_def db0_def)
  have p: "0 \<le> sqlite_sequence db0" by (simp add: db0_def)
  have b: "sqlite_sequence db0 + int (length history) \<le> 2 ^ 53"
    by (simp add: db0_def history_def)
  note t = created_ids_fresh [OF ok p b, of smith "[]" 100]
  have c: "createDonation [] 100 smith db0 = (Inr (Some (smith_row 100)), db1)"
    by (simp add: createDonation_def sql_insert_def sql_get_def fault_def check_constraints_def
        sqlite_length_def DonationType_def smith_def smith_row_def db0_def db1_def
        js_row_def to_number_def round_double_def)
  have d: "snd (deleteDonation [] 1 db1) = db0\<lparr>sqlite_sequence := 1\<rparr>"
    by (simp add: deleteDonation_def sql_delete_def fault_def db1_def db0_def smith_row_def)
  have c2: "fst (createDonation [] 200 smith (db0\<lparr>sqlite_sequence := 1\<rparr>)) =
      Inr (Some ((smith_row 200)\<lparr>rowid := 2, created_at := 200\<rparr>))"
    by (simp add: createDonation_def sql_insert_def sql_get_def fault_def check_constraints_def
        sqlite_length_def DonationType_def smith_def smith_row_def db0_def
        js_row_def to_number_def round_double_def)
  have "created history db0 = [smith_row 100, (smith_row 200)\<lparr>rowid := 2, created_at := 200\<rparr>]"
    unfolding history_def by (simp add: created_Create c d c2 returned_def del: created.simps(2))
  then have "map rowid (created history db0) = [1, 2]"
    by (simp add: smith_row_def)
  with ok c t show ?thesis by simp
qed

text \<open>
  C4, as stated, fails. The Store has three \<^verbatim>\<open>CHECK\<close> clauses and no others: called
  without the Validator, it stores a quantity of 2000000, beyond the limit of 1000000 that
  the field's constraint sets.
\<close>

theorem store_accepts_large_quantity:
  "createDonation [] 100 (smith\<lparr>quantity := 2000000\<rparr>) db0 =
     (Inr (Some ((smith_row 100)\<lparr>quantity := 2000000\<rparr>)),
      db1\<lparr>rows := [(smith_row 100)\<lparr>quantity := 2000000\<rparr>]\<rparr>)
   \<and> \<not> quantity (smith\<lparr>quantity := 2000000\<rparr>) \<le> 1000000"
  by (simp add: createDonation_def sql_insert_def sql_get_def fault_def check_constraints_def
      sqlite_length_def DonationType_def smith_def smith_row_def db0_def db1_def
      js_row_def to_number_def round_double_def)

text \<open>
  C4, amended. The Store enforces three constraints by itself, whatever the caller
  validated: an input whose \<open>donor_name\<close>, as given, has length below 2, whose
  \<open>donation_type\<close> is outside the seven values or whose \<open>quantity\<close> is not above 0 makes
  \<open>createDonation\<close> fail and leaves the table exactly as it was. The failure is the
  generic \<^verbatim>\<open>Failed to create donation\<close>, the very outcome of a failure of the medium, not
  an outcome of its own. No create, failing or not, adds a row that violates one of the
  three clauses.
\<close>

theorem createDonation_enforces_checks:
  "(sqlite_length (donor_name d) < 2 \<or> donation_type d \<notin> set DonationType \<or> \<not> quantity d > 0
      \<longrightarrow> createDonation fs now d db = (Inl ''Failed to create donation'', db))
   \<and> (fault fs' 0 \<longrightarrow> createDonation fs' now d' db = (Inl ''Failed to create donation'', db))
   \<and> (list_all check_constraints (rows db)
      \<longrightarrow> list_all check_constraints (rows (snd (createDonation fs now d db))))"
proof -
  have a: "createDonation fs now d db = (Inl ''Failed to create donation'', db)"
    if "\<not> check_constraints d"
    using that by (simp add: createDonation_def sql_insert_def Let_def)
  have b: "createDonation fs' now d' db = (Inl ''Failed to create donation'', db)"
    if "fault fs' 0"
    using that by (simp add: createDonation_def sql_insert_def)
  have c: "list_all check_constraints (rows (snd (createDonation fs now d db)))"
    if "list_all check_constraints (rows db)"
    using that createDonation_state [of fs now d db] by auto
  have v: "\<not> check_constraints d"
    if "sqlite_length (donor_name d) < 2 \<or> donation_type d \<notin> set DonationType \<or> \<not> quantity d > 0"
    using that by (auto simp: check_constraints_def)
  from a b c v show ?thesis by blast
qed

theorem createDonation_enforces_checks_witness:
  "\<not> quantity (smith\<lparr>quantity := 0\<rparr>) > 0
   \<and> createDonation [] 100 (smith\<lparr>quantity := 0\<rparr>) db1 = (Inl ''Failed to create donation'', db1)
   \<and> fault [True] 0
   \<and> createDonation [True] 100 smith db1 = (Inl ''Failed to create donation'', db1)
   \<and> list_all check_constraints (rows db1)
   \<and> list_all check_constraints (rows (snd (createDonation [] 100 smith db1)))"
proof -
  have h: "\<not> quantity (smith\<lparr>quantity := 0\<rparr>) > 0" by simp
  have f: "fault [True] 0" by (simp add: fault_def)
  have l: "list_all check_constraints (rows db1)"
    by (simp add: db1_def smith_row_def check_constraints_def sqlite_length_def DonationType_def)
  note t = createDonation_enforces_checks [of "smith\<lparr>quantity := 0\<rparr>" "[]" 100 db1 "[True]" smith]
  note u = createDonation_enforces_checks [of smith "[]" 100 db1 "[]" smith]
  from t h have 1: "createDonation [] 100 (smith\<lparr>quantity := 0\<rparr>) db1 =
      (Inl ''Failed to create donation'', db1)" by simp
  from t f have 2: "createDonation [True] 100 smith db1 = (Inl ''Failed to create donation'', db1)"
    by blast
  from u l have 3: "list_all check_constraints (rows (snd (createDonation [] 100 smith db1)))"
    by blast
  from h f l 1 2 3 show ?thesis by blast
qed

subsection \<open>Delete\<close>

text \<open>
  C6. While the storage medium works, \<open>deleteDonation\<close> returns a boolean flag: \<open>True\<close>
  exactly when a row with that id existed, and every such row is then gone; \<open>False\<close>, not
  an error, when there was none. A second delete of the same id returns \<open>False\<close> and
  leaves the table as the first delete left it.
\<close>

theorem deleteDonation_flag:
  "\<not> fault fs 0 \<Longrightarrow> \<not> fault fs' 0 \<Longrightarrow>
     deleteDonation fs k db =
       (Inr (\<exists>r\<in>set (rows db). rowid r = k),
        db\<lparr>rows := filter (\<lambda>r. rowid r \<noteq> k) (rows db)\<rparr>)
     \<and> deleteDonation fs' k (snd (deleteDonation fs k db)) =
         (Inr False, snd (deleteDonation fs k db))"
proof -
  assume h: "\<not> fault fs 0" and h': "\<not> fault fs' 0"
  have 1: "deleteDonation fs k db =
       (Inr (\<exists>r\<in>set (rows db). rowid r = k),
        db\<lparr>rows := filter (\<lambda>r. rowid r \<noteq> k) (rows db)\<rparr>)"
    using h by (auto simp: deleteDonation_def sql_delete_def filter_empty_conv)
  have "filter (\<lambda>r. rowid r = k) (filter (\<lambda>r. rowid r \<noteq> k) (rows db)) = []"
    by (simp add: filter_empty_conv)
  then have "deleteDonation fs' k (snd (deleteDonation fs k db)) =
         (Inr False, snd (deleteDonation fs k db))"
    using h' unfolding 1 by (simp add: deleteDonation_def sql_delete_def)
  with 1 show ?thesis by simp
qed

theorem deleteDonation_flag_witness:
  "\<not> fault [] 0 \<and> deleteDonation [] 1 db1 = (Inr True, db0\<lparr>sqlite_sequence := 1\<rparr>)
   \<and> deleteDonation [] 1 (snd (deleteDonation [] 1 db1)) = (Inr False, db0\<lparr>sqlite_sequence := 1\<rparr>)"
proof -
  have h: "\<not> fault [] 0" by (simp add: fault_def)
  note t = deleteDonation_flag [OF h h, of 1 db1]
  from t [THEN conjunct1]
  have 1: "deleteDonation [] 1 db1 = (Inr True, db0\<lparr>sqlite_sequence := 1\<rparr>)"
    by (simp add: db1_def db0_def smith_row_def)
  have 2: "deleteDonation [] 1 (snd (deleteDonation [] 1 db1)) =
      (Inr False, snd (deleteDonation [] 1 db1))"
    by (rule t [THEN conjunct2])
  from 2 have "deleteDonation [] 1 (snd (deleteDonation [] 1 db1)) =
      (Inr False, db0\<lparr>sqlite_sequence := 1\<rparr>)"
    unfolding 1 by simp
  with 1 h show ?thesis by simp
qed

subsection \<open>Update\<close>

lemma find_map_set_clause:
  "find (\<lambda>x. rowid x = k) (map (\<lambda>r. if rowid r = k then set_clause u now r else r) xs)
     = map_option (set_clause u now) (find (\<lambda>x. rowid x = k) xs)"
  by (induction xs) auto

lemma find_map_other:
  "j \<noteq> k \<Longrightarrow>
   find (\<lambda>x. rowid x = j) (map (\<lambda>r. if rowid r = k then set_clause u now r else r) xs)
     = find (\<lambda>x. rowid x = j) xs"
  by (induction xs) auto

lemma updateDonation_Some:
  assumes "updateDonation fs now k u db = (Inr (Some r'), db')"
  shows "db' = db\<lparr>rows := map (\<lambda>r. if rowid r = k then set_clause u now r else r) (rows db)\<rparr>"
    and "map_option js_row (find (\<lambda>x. rowid x = k) (rows db')) = Some r'"
    and "update_fields u \<noteq> []"
  using assms
  by (auto simp: updateDonation_def sql_update_def sql_get_def Let_def
      split: if_splits sum.splits prod.splits)

lemma fault_drop: "fault (drop (Suc 0) fs) k = fault fs (Suc k)"
  by (auto simp: fault_def)

lemma find_SomeD: "find P xs = Some x \<Longrightarrow> P x \<and> x \<in> set xs"
  by (induction xs) (auto split: if_splits)

lemma updateDonation_success:
  assumes f0: "\<not> fault fs 0" and f1: "\<not> fault fs 1" and n: "update_fields u \<noteq> []"
    and c: "list_all (\<lambda>x. check_constraints (set_clause u now x))
              (filter (\<lambda>x. rowid x = k) (rows db))"
    and r: "find (\<lambda>x. rowid x = k) (rows db) = Some r"
  shows "updateDonation fs now k u db =
     (Inr (Some (js_row (set_clause u now r))),
      db\<lparr>rows := map (\<lambda>x. if rowid x = k then set_clause u now x else x) (rows db)\<rparr>)"
proof -
  from find_SomeD [OF r] have "r \<in> set (rows db)" "rowid r = k" by simp_all
  then have h: "length (filter (\<lambda>x. rowid x = k) (rows db)) \<noteq> 0"
    by (auto simp: filter_empty_conv)
  have i: "sql_update (fault fs 0) now k u db =
      Inr (db\<lparr>rows := map (\<lambda>x. if rowid x = k then set_clause u now x else x) (rows db)\<rparr>,
           length (filter (\<lambda>x. rowid x = k) (rows db)))"
    using f0 c by (simp add: sql_update_def)
  have g: "sql_get (fault fs 1) k
      (db\<lparr>rows := map (\<lambda>x. if rowid x = k then set_clause u now x else x) (rows db)\<rparr>) =
      Inr (Some (js_row (set_clause u now r)))"
    using f1 r by (simp add: sql_get_def find_map_set_clause)
  show ?thesis
    unfolding updateDonation_def i using n h g by simp
qed

text \<open>
  C7, as stated, fails where it says that \<open>updated_at\<close> strictly increases:
  \<^verbatim>\<open>CURRENT_TIMESTAMP\<close> counts whole seconds, and an update in the second in which the
  record was created (or last updated) stores the same \<open>updated_at\<close> again.
\<close>

theorem updated_at_not_strict:
  "getDonationById [] 1 db1 = Inr (Some (smith_row 100))
   \<and> updateDonation [] 100 1 quantity_20 db1 =
       (Inr (Some ((smith_row 100)\<lparr>quantity := 20\<rparr>)),
        db1\<lparr>rows := [(smith_row 100)\<lparr>quantity := 20\<rparr>]\<rparr>)
   \<and> \<not> updated_at (smith_row 100) < updated_at ((smith_row 100)\<lparr>quantity := 20\<rparr>)"
  by (simp add: getDonationById_def updateDonation_def sql_update_def sql_get_def fault_def
      update_fields_def set_clause_def check_constraints_def sqlite_length_def DonationType_def
      quantity_20_def db1_def smith_row_def js_row_def to_number_def round_double_def)

text \<open>
  C7, amended. A successful update of an existing record changes only what the payload
  supplies: each of \<open>donor_name\<close>, \<open>donation_type\<close>, \<open>quantity\<close> and \<open>date\<close> that is absent
  from the payload keeps its value, each that is present takes the supplied value, the id
  and \<open>created_at\<close> stay, and every other record is untouched. \<open>updated_at\<close> becomes the
  time of the statement: it is above its old value exactly when the clock, read in whole
  seconds, has moved past it.
\<close>

theorem updateDonation_frame:
  "getDonationById [] k db = Inr (Some r) \<Longrightarrow>
   updateDonation fs now k u db = (Inr (Some r'), db') \<Longrightarrow>
     (u_donor_name u = None \<longrightarrow> donor_name r' = donor_name r)
     \<and> (u_donation_type u = None \<longrightarrow> donation_type r' = donation_type r)
     \<and> (u_quantity u = None \<longrightarrow> quantity r' = quantity r)
     \<and> (u_date u = None \<longrightarrow> date r' = date r)
     \<and> (\<forall>v. u_donor_name u = Some v \<longrightarrow> donor_name r' = v)
     \<and> (\<forall>v. u_donation_type u = Some v \<longrightarrow> donation_type r' = v)
     \<and> (\<forall>v. u_quantity u = Some v \<longrightarrow> quantity r' = v)
     \<and> (\<forall>v. u_date u = Some v \<longrightarrow> date r' = v)
     \<and> rowid r' = rowid r \<and> created_at r' = created_at r
     \<and> updated_at r' = now
     \<and> (updated_at r < updated_at r' \<longleftrightarrow> updated_at r < now)
     \<and> getDonationById [] k db' = Inr (Some r')
     \<and> (\<forall>j. j \<noteq> k \<longrightarrow> getDonationById [] j db' = getDonationById [] j db)"
proof -
  assume g: "getDonationById [] k db = Inr (Some r)"
    and u: "updateDonation fs now k u db = (Inr (Some r'), db')"
  from g obtain r0 where f: "find (\<lambda>x. rowid x = k) (rows db) = Some r0"
    and r: "r = js_row r0"
    by (auto simp: getDonationById_def sql_get_def fault_def)
  note s = updateDonation_Some [OF u]
  from s(2) have f': "map_option js_row (find (\<lambda>x. rowid x = k) (rows db')) = Some r'" .
  from f' s(1) f have r': "r' = js_row (set_clause u now r0)"
    by (simp add: find_map_set_clause)
  have o: "getDonationById [] j db' = getDonationById [] j db" if "j \<noteq> k" for j
    using that s(1) by (simp add: getDonationById_def sql_get_def fault_def find_map_other)
  have p: "getDonationById [] k db' = Inr (Some r')"
    using f' by (simp add: getDonationById_def sql_get_def fault_def)
  from r r' o p show ?thesis
    by (simp add: set_clause_def js_row_def)
qed

theorem updateDonation_frame_witness:
  "getDonationById [] 1 db1 = Inr (Some (smith_row 100))
   \<and> updateDonation [] 160 1 quantity_20 db1 =
       (Inr (Some ((smith_row 160)\<lparr>quantity := 20\<rparr>)),
        db1\<lparr>rows := [(smith_row 160)\<lparr>quantity := 20\<rparr>]\<rparr>)
   \<and> donor_name ((smith_row 160)\<lparr>quantity := 20\<rparr>) = donor_name (smith_row 100)
   \<and> updated_at (smith_row 100) < updated_at ((smith_row 160)\<lparr>quantity := 20\<rparr>)"
proof -
  have g: "getDonationById [] 1 db1 = Inr (Some (smith_row 100))"
    by (simp add: getDonationById_def sql_get_def fault_def db1_def smith_row_def
        js_row_def to_number_def round_double_def)
  have u: "updateDonation [] 160 1 quantity_20 db1 =
       (Inr (Some ((smith_row 160)\<lparr>quantity := 20\<rparr>)),
        db1\<lparr>rows := [(smith_row 160)\<lparr>quantity := 20\<rparr>]\<rparr>)"
    by (simp add: updateDonation_def sql_update_def sql_get_def fault_def update_fields_def
        set_clause_def check_constraints_def sqlite_length_def DonationType_def
        quantity_20_def db1_def smith_row_def js_row_def to_number_def round_double_def)
  from updateDonation_frame [OF g u] g u show ?thesis
    by (simp add: quantity_20_def smith_row_def)
qed

subsection \<open>Update with no fields\<close>

lemma UpdateDonationSchema_no_fields:
  assumes "field b ''donor_name'' = JUndefined" "field b ''donation_type'' = JUndefined"
    "field b ''quantity'' = JUndefined" "field b ''date'' = JUndefined"
  shows "UpdateDonationSchema dp b = Inr no_fields"
  using assms by (simp add: UpdateDonationSchema_def optional_def no_fields_def)

lemma updateDonation_no_fields:
  "updateDonation fs now k no_fields db = (Inl ''No fields provided for update'', db)"
  by (simp add: updateDonation_def update_fields_def no_fields_def)

text \<open>
  C2, as stated, fails at the Validator: \<open>UpdateDonationSchema\<close> makes every field optional
  and has no rule about an empty input, so it accepts the empty payload.
\<close>

theorem validator_accepts_empty_update:
  "UpdateDonationSchema iso_date empty_body = Inr no_fields"
  by (simp add: UpdateDonationSchema_def field_def optional_def no_fields_def empty_body_def)

text \<open>
  C2, amended. For an update payload that supplies none of the four fields, the Validator
  succeeds with the empty patch; \<open>updateDonation\<close> throws the error
  \<^verbatim>\<open>No fields provided for update\<close> (a rejected promise, as for a failure of the medium)
  and leaves the table unchanged; \<^verbatim>\<open>PUT /donations/:id\<close> leaves the table unchanged too
  and, for an id that is read as a positive integer up to \<open>2 ^ 53\<close> and a working
  medium, answers 404 when the id has no record and the generic 500
  \<^verbatim>\<open>Failed to update donation\<close> when it has one.
\<close>

theorem empty_update:
  "field b ''donor_name'' = JUndefined \<Longrightarrow> field b ''donation_type'' = JUndefined \<Longrightarrow>
   field b ''quantity'' = JUndefined \<Longrightarrow> field b ''date'' = JUndefined \<Longrightarrow>
     UpdateDonationSchema dp b = Inr no_fields
     \<and> updateDonation fs now k no_fields db = (Inl ''No fields provided for update'', db)
     \<and> snd (put_donation dp fs now idp b db) = db
     \<and> (parseInt idp = Some k \<and> 0 < k \<and> k \<le> 2 ^ 53 \<and> \<not> fault fs 0 \<longrightarrow>
          fst (put_donation dp fs now idp b db) =
            (if \<exists>r\<in>set (rows db). rowid r = k
             then failure 500 ''Failed to update donation''
             else failure 404 ''Donation not found''))"
proof -
  assume a: "field b ''donor_name'' = JUndefined" "field b ''donation_type'' = JUndefined"
    "field b ''quantity'' = JUndefined" "field b ''date'' = JUndefined"
  have v: "UpdateDonationSchema dp b = Inr no_fields"
    by (rule UpdateDonationSchema_no_fields [OF a])
  have u: "updateDonation fs' now j no_fields db = (Inl ''No fields provided for update'', db)"
    for fs' j by (rule updateDonation_no_fields)
  have s: "snd (put_donation dp fs now idp b db) = db"
    by (simp add: put_donation_def v u split: option.splits sum.splits)
  have p: "fst (put_donation dp fs now idp b db) =
            (if \<exists>r\<in>set (rows db). rowid r = k
             then failure 500 ''Failed to update donation''
             else failure 404 ''Donation not found'')"
    if h: "parseInt idp = Some k" "0 < k" "k \<le> 2 ^ 53" "\<not> fault fs 0"
  proof (cases "find (\<lambda>r. rowid r = k) (rows db)")
    case None
    then have "\<not> (\<exists>r\<in>set (rows db). rowid r = k)" by (simp add: find_None_iff)
    with None h show ?thesis
      by (simp add: put_donation_def v getDonationById_def sql_get_def)
  next
    case (Some x)
    from find_SomeD [OF this] have "\<exists>r\<in>set (rows db). rowid r = k" by blast
    with Some h show ?thesis
      by (simp add: put_donation_def v u getDonationById_def sql_get_def)
  qed
  from v u s p show ?thesis by blast
qed

theorem empty_update_witness:
  "field empty_body ''donor_name'' = JUndefined
   \<and> UpdateDonationSchema iso_date empty_body = Inr no_fields
   \<and> updateDonation [] 160 1 no_fields db1 = (Inl ''No fields provided for update'', db1)
   \<and> put_donation iso_date [] 160 ''1'' empty_body db1 =
       (failure 500 ''Failed to update donation'', db1)"
proof -
  have f: "field empty_body k = JUndefined" for k by (simp add: field_def empty_body_def)
  have p: "parseInt ''1'' = Some 1" by (simp add: parse_defs)
  have n: "\<not> fault [] 0" by (simp add: fault_def)
  have e: "\<exists>r\<in>set (rows db1). rowid r = 1" by (simp add: db1_def smith_row_def)
  have l: "(1::int) \<le> 2 ^ 53" by simp
  note t = empty_update [OF f f f f, of iso_date "[]" 160 1 db1 "''1''"]
  from t p n e l have "fst (put_donation iso_date [] 160 ''1'' empty_body db1) =
      failure 500 ''Failed to update donation''" by simp
  moreover from t have "snd (put_donation iso_date [] 160 ''1'' empty_body db1) = db1" by simp
  ultimately have "put_donation iso_date [] 160 ''1'' empty_body db1 =
       (failure 500 ''Failed to update donation'', db1)"
    by (simp add: prod_eq_iff)
  with t f show ?thesis by simp
qed

subsection \<open>Classes of failure\<close>

lemma createDonation_fails:
  "\<not> check_constraints d \<or> fault fs 0 \<Longrightarrow>
     createDonation fs now d db = (Inl ''Failed to create donation'', db)"
  by (auto simp: createDonation_def sql_insert_def Let_def)

text \<open>
  C5, as stated, fails: \<open>createDonation\<close> maps every error of the \<^verbatim>\<open>INSERT\<close> to the same
  \<^verbatim>\<open>Error('Failed to create donation')\<close>, and the handler answers it with the same 500.
  A name that the \<^verbatim>\<open>CHECK\<close> rejects without any fault and a valid record on a failing
  medium give the same outcome.
\<close>

theorem constraint_and_fault_alike:
  "createDonation [] 100 (smith\<lparr>donor_name := ''a''\<rparr>) db0 = createDonation [True] 100 smith db0
   \<and> post_donations iso_date [] 100 (smith_body '' a'') db0 =
       (failure 500 ''Failed to create donation'', db0)
   \<and> post_donations iso_date [True] 100 (smith_body ''A. Smith'') db0 =
       (failure 500 ''Failed to create donation'', db0)"
  by (simp add: post_donations_def CreateDonationSchema_def field_def donor_name_schema_def
      donation_type_schema_def quantity_schema_def date_schema_def iso_date_def trim_def
      is_white_space_def issues_of_def createDonation_def sql_insert_def fault_def
      check_constraints_def sqlite_length_def DonationType_def smith_def smith_body_def
      db0_def failure_def)

text \<open>
  C5, amended. A rejection by a storage constraint and a failure of the storage medium
  surface as one outcome: \<open>createDonation\<close> fails with \<^verbatim>\<open>Failed to create donation\<close> and
  \<^verbatim>\<open>POST /donations\<close> answers 500 in both cases. That outcome differs from the validation
  outcome (400 with the list of field errors), and on \<^verbatim>\<open>GET /donations/:id\<close>, for an id
  that is read as a positive integer up to \<open>2 ^ 53\<close>, the not-found outcome (404) differs
  from the failure of the medium (500): a caller can tell client error, not found and
  server error apart, but not a constraint violation from a storage fault.
\<close>

theorem failure_classes:
  "(\<not> check_constraints d \<or> fault fs 0 \<longrightarrow>
      createDonation fs now d db = (Inl ''Failed to create donation'', db))
   \<and> (\<forall>is. CreateDonationSchema dp b = Inl is \<longrightarrow>
         post_donations dp fs now b db = (validation_failed is, db)
         \<and> status (validation_failed is) = 400)
   \<and> (\<forall>d'. CreateDonationSchema dp b = Inr d' \<and> (\<not> check_constraints d' \<or> fault fs 0) \<longrightarrow>
         post_donations dp fs now b db = (failure 500 ''Failed to create donation'', db)
         \<and> status (failure 500 ''Failed to create donation'') = 500)
   \<and> (parseInt idp = Some k \<and> 0 < k \<and> k \<le> 2 ^ 53 \<and> \<not> fault fs 0
        \<and> find (\<lambda>r. rowid r = k) (rows db) = None \<longrightarrow>
         get_donation fs idp db = failure 404 ''Donation not found''
         \<and> status (failure 404 ''Donation not found'') = 404)
   \<and> (parseInt idp = Some k \<and> 0 < k \<and> fault fs 0 \<longrightarrow>
         get_donation fs idp db = failure 500 ''Failed to retrieve donation'')"
proof -
  have 1: "createDonation fs now d' db = (Inl ''Failed to create donation'', db)"
    if "\<not> check_constraints d' \<or> fault fs 0" for d'
    using that by (rule createDonation_fails)
  have 2: "post_donations dp fs now b db = (validation_failed is, db)
         \<and> status (validation_failed is) = 400"
    if "CreateDonationSchema dp b = Inl is" for "is"
    using that by (simp add: post_donations_def validation_failed_def)
  have 3: "post_donations dp fs now b db = (failure 500 ''Failed to create donation'', db)
         \<and> status (failure 500 ''Failed to create donation'') = 500"
    if "CreateDonationSchema dp b = Inr d'" "\<not> check_constraints d' \<or> fault fs 0" for d'
    using that(1) 1 [OF that(2)] by (simp add: post_donations_def failure_def)
  have 4: "get_donation fs idp db = failure 404 ''Donation not found''
         \<and> status (failure 404 ''Donation not found'') = 404"
    if "parseInt idp = Some k" "0 < k" "k \<le> 2 ^ 53" "\<not> fault fs 0"
      "find (\<lambda>r. rowid r = k) (rows db) = None"
    using that by (simp add: get_donation_def getDonationById_def sql_get_def failure_def)
  have 5: "get_donation fs idp db = failure 500 ''Failed to retrieve donation''"
    if "parseInt idp = Some k" "0 < k" "fault fs 0"
    using that by (simp add: get_donation_def getDonationById_def sql_get_def)
  from 1 2 3 4 5 show ?thesis by blast
qed

theorem failure_classes_witness:
  "\<not> check_constraints (smith\<lparr>quantity := - 1\<rparr>)
   \<and> createDonation [] 100 (smith\<lparr>quantity := - 1\<rparr>) db0 = (Inl ''Failed to create donation'', db0)
   \<and> post_donations iso_date [] 100 (smith_body ''X'') db0 =
       (validation_failed [Issue ''donor_name'' ''Donor name must be at least 2 characters''], db0)
   \<and> post_donations iso_date [True] 100 (smith_body ''A. Smith'') db0 =
       (failure 500 ''Failed to create donation'', db0)
   \<and> get_donation [] ''2'' db1 = failure 404 ''Donation not found''
   \<and> get_donation [True] ''2'' db1 = failure 500 ''Failed to retrieve donation''"
proof -
  have c: "\<not> check_constraints (smith\<lparr>quantity := - 1\<rparr>)"
    by (simp add: check_constraints_def)
  have v: "CreateDonationSchema iso_date (smith_body ''X'') =
      Inl [Issue ''donor_name'' ''Donor name must be at least 2 characters'']"
    by (simp add: CreateDonationSchema_def field_def donor_name_schema_def
      donation_type_schema_def quantity_schema_def date_schema_def iso_date_def
      issues_of_def DonationType_def smith_body_def)
  have w: "CreateDonationSchema iso_date (smith_body ''A. Smith'') = Inr smith"
    by (simp add: CreateDonationSchema_def field_def donor_name_schema_def
      donation_type_schema_def quantity_schema_def date_schema_def iso_date_def trim_def
      is_white_space_def issues_of_def DonationType_def smith_body_def smith_def)
  have p: "parseInt ''2'' = Some 2" by (simp add: parse_defs)
  have l: "(2::int) \<le> 2 ^ 53" by simp
  have n: "find (\<lambda>r. rowid r = 2) (rows db1) = None" by (simp add: db1_def smith_row_def)
  have f0: "\<not> fault [] 0" and f1: "fault [True] 0" by (simp_all add: fault_def)
  note a = failure_classes [of "smith\<lparr>quantity := - 1\<rparr>" "[]" 100 db0 iso_date "smith_body ''X''" "''2''" 2]
  note b = failure_classes [of smith "[True]" 100 db0 iso_date "smith_body ''A. Smith''" "''2''" 2]
  note g = failure_classes [of smith "[]" 100 db1 iso_date "smith_body ''X''" "''2''" 2]
  note h = failure_classes [of smith "[True]" 100 db1 iso_date "smith_body ''X''" "''2''" 2]
  from a c have 1: "createDonation [] 100 (smith\<lparr>quantity := - 1\<rparr>) db0 = (Inl ''Failed to create donation'', db0)"
    by blast
  from a v have 2: "post_donations iso_date [] 100 (smith_body ''X'') db0 =
       (validation_failed [Issue ''donor_name'' ''Donor name must be at least 2 characters''], db0)"
    by blast
  from b w f1 have 3: "post_donations iso_date [True] 100 (smith_body ''A. Smith'') db0 =
       (failure 500 ''Failed to create donation'', db0)"
    by blast
  from g p l n f0 have 4: "get_donation [] ''2'' db1 = failure 404 ''Donation not found''"
    by simp
  from h p f1 have 5: "get_donation [True] ''2'' db1 = failure 500 ''Failed to retrieve donation''"
    by simp
  from c 1 2 3 4 5 show ?thesis by blast
qed

subsection \<open>The donor name on create\<close>

text \<open>
  C1. The claim is that \<open>donor_name\<close> is trimmed before its length is checked, so that a
  name with fewer than 2 characters after trimming is rejected by the Validator, as a
  validation failure. The schema chains \<^verbatim>\<open>.min(2).max(100).trim()\<close>, and the checks run
  in that order, on the name as received: \<open>'' a''\<close> has length 2, passes, and leaves the
  Validator as \<open>''a''\<close>, of length 1. The Store's \<^verbatim>\<open>CHECK\<close> then refuses it, and
  \<^verbatim>\<open>POST /donations\<close> answers with the generic 500 instead of the validation failure.
\<close>

theorem validator_accepts_short_trimmed_name:
  "CreateDonationSchema iso_date (smith_body '' a'') = Inr (smith\<lparr>donor_name := ''a''\<rparr>)
   \<and> length (trim '' a'') < 2
   \<and> post_donations iso_date [] 100 (smith_body '' a'') db0 =
       (failure 500 ''Failed to create donation'', db0)"
  by (simp add: post_donations_def CreateDonationSchema_def field_def donor_name_schema_def
      donation_type_schema_def quantity_schema_def date_schema_def iso_date_def trim_def
      is_white_space_def issues_of_def createDonation_def sql_insert_def fault_def
      check_constraints_def sqlite_length_def DonationType_def smith_def smith_body_def
      db0_def failure_def)

subsection \<open>Unknown keys\<close>

lemma field_restrict:
  "field (b |` known_keys) ''donor_name'' = field b ''donor_name''"
  "field (b |` known_keys) ''donation_type'' = field b ''donation_type''"
  "field (b |` known_keys) ''quantity'' = field b ''quantity''"
  "field (b |` known_keys) ''date'' = field b ''date''"
  by (simp_all add: field_def known_keys_def)

lemma CreateDonationSchema_restrict:
  "CreateDonationSchema dp (b |` known_keys) = CreateDonationSchema dp b"
  unfolding CreateDonationSchema_def field_restrict ..

lemma UpdateDonationSchema_restrict:
  "UpdateDonationSchema dp (b |` known_keys) = UpdateDonationSchema dp b"
  unfolding UpdateDonationSchema_def field_restrict ..

text \<open>
  C10. The schemas read the keys \<open>donor_name\<close>, \<open>donation_type\<close>, \<open>quantity\<close> and \<open>date\<close>
  and nothing else: the verdict and the output of both Validators, and the response and
  the resulting table of \<^verbatim>\<open>POST /donations\<close> and \<^verbatim>\<open>PUT /donations/:id\<close>, are those of
  the body with every other key removed. Other keys cause no rejection and reach neither
  the Store nor the response.
\<close>

theorem unknown_keys_stripped:
  "CreateDonationSchema dp b = CreateDonationSchema dp (b |` known_keys)
   \<and> UpdateDonationSchema dp b = UpdateDonationSchema dp (b |` known_keys)
   \<and> post_donations dp fs now b db = post_donations dp fs now (b |` known_keys) db
   \<and> put_donation dp fs now idp b db = put_donation dp fs now idp (b |` known_keys) db"
  unfolding post_donations_def put_donation_def CreateDonationSchema_restrict
    UpdateDonationSchema_restrict
  by simp

theorem unknown_keys_stripped_witness:
  "extra_body ''id'' = Some (JNum 99)
   \<and> CreateDonationSchema iso_date extra_body = Inr smith
   \<and> post_donations iso_date [] 100 extra_body db0 =
       (\<lparr>status = 201, success = True, data = Some (smith_row 100),
         message = ''Donation created successfully'', errors = None\<rparr>, db1)"
proof -
  have r: "extra_body |` known_keys = smith_body ''A. Smith''"
    by (rule ext) (simp add: extra_body_def smith_body_def known_keys_def restrict_map_def)
  have v: "CreateDonationSchema iso_date (smith_body ''A. Smith'') = Inr smith"
    by (simp add: CreateDonationSchema_def field_def donor_name_schema_def
      donation_type_schema_def quantity_schema_def date_schema_def iso_date_def trim_def
      is_white_space_def issues_of_def DonationType_def smith_body_def smith_def)
  have c: "createDonation [] 100 smith db0 = (Inr (Some (smith_row 100)), db1)"
    by (simp add: createDonation_def sql_insert_def sql_get_def fault_def check_constraints_def
        sqlite_length_def DonationType_def smith_def smith_row_def db0_def db1_def row_defs)
  note t = unknown_keys_stripped [of iso_date extra_body "[]" 100 db0 "''1''"]
  have i: "extra_body ''id'' = Some (JNum 99)" by (simp add: extra_body_def)
  from t have 1: "CreateDonationSchema iso_date extra_body = Inr smith"
    unfolding r v by simp
  from t have 2: "post_donations iso_date [] 100 extra_body db0 =
       (\<lparr>status = 201, success = True, data = Some (smith_row 100),
         message = ''Donation created successfully'', errors = None\<rparr>, db1)"
    unfolding r by (simp add: post_donations_def v c)
  from i 1 2 show ?thesis by blast
qed

subsection \<open>The id of a request\<close>

lemma is_digit_not_other:
  assumes "is_digit c"
  shows "\<not> is_white_space c" and "c \<noteq> CHR ''+''" and "c \<noteq> CHR ''-''"
    and "c \<noteq> CHR ''x''" and "c \<noteq> CHR ''X''"
  using assms by (auto simp: is_digit_def is_white_space_def)

lemma takeWhile_prefix:
  "list_all P ds \<Longrightarrow> rest = [] \<or> \<not> P (hd rest) \<Longrightarrow> takeWhile P (ds @ rest) = ds"
  by (induction ds) (auto simp: takeWhile_eq_Nil_iff)

lemma digits_value_zero: "digits_value 10 ''0'' = 0"
  by (simp add: digits_value_def digit_value_def)

lemma parseInt_plain:
  assumes "dropWhile is_white_space s = s"
    and "hd s \<noteq> CHR ''+''" and "hd s \<noteq> CHR ''-''"
    and "take 2 s \<noteq> ''0x''" and "take 2 s \<noteq> ''0X''"
    and "takeWhile is_digit s = z" and "z \<noteq> []"
  shows "parseInt s = Some (to_number (int (digits_value 10 z)))"
  using assms by (simp add: parseInt_def Let_def)

lemma parseInt_digits:
  assumes ne: "ds \<noteq> []" and dg: "list_all is_digit ds"
    and mx: "rest = [] \<or> \<not> is_digit (hd rest)" and pos: "0 < digits_value 10 ds"
    and bd: "digits_value 10 ds \<le> 2 ^ 53"
  shows "parseInt (ds @ rest) = Some (int (digits_value 10 ds))"
proof -
  from ne obtain c cs where ds: "ds = c # cs" by (cases ds) auto
  from dg ds have c: "is_digit c" by simp
  note n = is_digit_not_other [OF c]
  have h: "hd (ds @ rest) = c" using ds by simp
  have w: "dropWhile is_white_space (ds @ rest) = ds @ rest"
    using n(1) ds by simp
  have nohex: "take 2 (ds @ rest) \<noteq> ''0x'' \<and> take 2 (ds @ rest) \<noteq> ''0X''"
  proof (cases cs)
    case Nil
    with pos ds have "c \<noteq> CHR ''0''" using digits_value_zero by auto
    with ds show ?thesis by auto
  next
    case (Cons e es)
    with dg ds have "is_digit e" by simp
    from is_digit_not_other(4,5) [OF this] ds Cons show ?thesis by simp
  qed
  have z: "takeWhile is_digit (ds @ rest) = ds"
    by (rule takeWhile_prefix [OF dg mx])
  have "int (digits_value 10 ds) \<le> 2 ^ 53"
  proof -
    from bd have "int (digits_value 10 ds) \<le> int (2 ^ 53)" by (simp only: of_nat_le_iff)
    then show ?thesis by simp
  qed
  then have e: "to_number (int (digits_value 10 ds)) = int (digits_value 10 ds)"
    by (intro to_number_exact) simp_all
  have "parseInt (ds @ rest) = Some (to_number (int (digits_value 10 ds)))"
    by (rule parseInt_plain [OF w _ _ _ _ z ne]) (use h n nohex in simp_all)
  with e show ?thesis by simp
qed

lemma parseInt_minus:
  "parseInt (CHR ''-'' # t) = None \<or> (\<exists>k. parseInt (CHR ''-'' # t) = Some k \<and> k \<le> 0)"
  by (simp add: parseInt_def Let_def is_white_space_def to_number_nonpos)

lemma parseInt_no_number:
  assumes "s = [] \<or> (\<not> is_white_space (hd s) \<and> hd s \<noteq> CHR ''+'' \<and> hd s \<noteq> CHR ''-''
             \<and> \<not> is_digit (hd s))"
  shows "parseInt s = None"
proof (cases s)
  case Nil
  then show ?thesis by (simp add: parseInt_def)
next
  case (Cons c cs)
  with assms have c: "\<not> is_white_space c" "c \<noteq> CHR ''+''" "c \<noteq> CHR ''-''" "\<not> is_digit c"
    by simp_all
  from c(4) have "c \<noteq> CHR ''0''" by (auto simp: is_digit_def)
  with c Cons show ?thesis by (simp add: parseInt_def Let_def)
qed

lemma get_donation_invalid_iff:
  "get_donation fs idp db = failure 400 ''Invalid donation ID''
     \<longleftrightarrow> parseInt idp = None \<or> (\<exists>k. parseInt idp = Some k \<and> k \<le> 0)"
  by (auto simp: get_donation_def failure_def split: option.splits sum.splits)

lemma put_donation_invalid_iff:
  "fst (put_donation dp fs now idp b db) = failure 400 ''Invalid donation ID''
     \<longleftrightarrow> parseInt idp = None \<or> (\<exists>k. parseInt idp = Some k \<and> k \<le> 0)"
  by (auto simp: put_donation_def failure_def validation_failed_def
      split: option.splits sum.splits prod.splits)

lemma delete_donation_invalid_iff:
  "fst (delete_donation fs idp db) = failure 400 ''Invalid donation ID''
     \<longleftrightarrow> parseInt idp = None \<or> (\<exists>k. parseInt idp = Some k \<and> k \<le> 0)"
  by (auto simp: delete_donation_def failure_def
      split: option.splits sum.splits prod.splits bool.splits)

text \<open>What the three handlers do once the id is read as \<open>n\<close>, with a working medium.\<close>

lemma getDonationById_absent:
  "\<not> fault fs 0 \<Longrightarrow> \<forall>r\<in>set (rows db). rowid r \<noteq> n \<Longrightarrow> getDonationById fs n db = Inr None"
  by (simp add: getDonationById_def sql_get_def find_None_iff)

lemma getDonationById_present:
  assumes "\<not> fault fs 0" and "find (\<lambda>x. rowid x = n) (rows db) = Some r"
    and "0 \<le> n" and "n \<le> 2 ^ 53"
  shows "getDonationById fs n db = Inr (Some r)"
proof -
  from find_SomeD [OF assms(2)] have "rowid r = n" by simp
  with assms(3,4) have "js_row r = r" by (intro js_row_exact) simp_all
  with assms(1,2) show ?thesis by (simp add: getDonationById_def sql_get_def)
qed

lemma deleteDonation_present:
  assumes "\<not> fault fs 0" and "find (\<lambda>x. rowid x = n) (rows db) = Some r"
  shows "deleteDonation fs n db = (Inr True, db\<lparr>rows := filter (\<lambda>x. rowid x \<noteq> n) (rows db)\<rparr>)"
proof -
  from find_SomeD [OF assms(2)] have "r \<in> set (rows db)" "rowid r = n" by simp_all
  then have "length (filter (\<lambda>x. rowid x = n) (rows db)) \<noteq> 0"
    by (auto simp: filter_empty_conv)
  with assms(1) show ?thesis by (simp add: deleteDonation_def sql_delete_def)
qed

text \<open>
  C3, as stated, fails. The id \<open>''1.5''\<close> is not an integer, yet \<^verbatim>\<open>GET /donations/:id\<close>
  reads it as 1 and returns that record; and \<open>getDonationById\<close> itself checks nothing: for
  the id \<open>- 1\<close> it resolves with \<^verbatim>\<open>null\<close>, exactly as for the well-formed absent id 2.
\<close>

theorem non_integer_id_accepted:
  "get_donation [] ''1.5'' db1 =
     \<lparr>status = 200, success = True, data = Some (smith_row 100),
      message = ''Donation retrieved successfully'', errors = None\<rparr>
   \<and> getDonationById [] (- 1) db1 = Inr None
   \<and> getDonationById [] 2 db1 = Inr None"
  by (simp add: get_donation_def getDonationById_def sql_get_def fault_def parse_defs
      js_row_def db1_def smith_row_def)

text \<open>
  C3, amended. On \<^verbatim>\<open>GET /donations/:id\<close>, an id that is empty, starts with \<open>-\<close>, or
  starts with a character that is neither white space, a sign nor a digit, and in general
  any id that \<open>parseInt\<close> maps to \<^verbatim>\<open>NaN\<close> or to a number that is not positive, is answered
  with 400 \<^verbatim>\<open>Invalid donation ID\<close>; an id that \<open>parseInt\<close> maps to a positive integer up to
  \<open>2 ^ 53\<close> with no record is answered, the medium working, with 404
  \<^verbatim>\<open>Donation not found\<close>; the two answers differ. The Store's \<open>getDonationById\<close> validates
  nothing: for any id without a record, positive or not, it resolves with \<^verbatim>\<open>null\<close>.
\<close>

theorem get_donation_id_outcomes:
  "(idp = [] \<or> hd idp = CHR ''-''
      \<or> (\<not> is_white_space (hd idp) \<and> hd idp \<noteq> CHR ''+'' \<and> \<not> is_digit (hd idp))
     \<longrightarrow> get_donation fs idp db = failure 400 ''Invalid donation ID'')
   \<and> (parseInt idp = None \<or> (\<exists>k. parseInt idp = Some k \<and> k \<le> 0)
       \<longrightarrow> get_donation fs idp db = failure 400 ''Invalid donation ID'')
   \<and> (\<forall>k. parseInt idp = Some k \<and> 0 < k \<and> k \<le> 2 ^ 53 \<and> \<not> fault fs 0
           \<and> (\<forall>r\<in>set (rows db). rowid r \<noteq> k)
       \<longrightarrow> get_donation fs idp db = failure 404 ''Donation not found'')
   \<and> failure 400 ''Invalid donation ID'' \<noteq> failure 404 ''Donation not found''
   \<and> (\<forall>k. \<not> fault fs 0 \<and> (\<forall>r\<in>set (rows db). rowid r \<noteq> k)
       \<longrightarrow> getDonationById fs k db = Inr None)"
proof -
  have 2: "get_donation fs idp db = failure 400 ''Invalid donation ID''"
    if "parseInt idp = None \<or> (\<exists>k. parseInt idp = Some k \<and> k \<le> 0)"
    using that by (simp add: get_donation_invalid_iff)
  have 1: "get_donation fs idp db = failure 400 ''Invalid donation ID''"
    if h: "idp = [] \<or> hd idp = CHR ''-''
      \<or> (\<not> is_white_space (hd idp) \<and> hd idp \<noteq> CHR ''+'' \<and> \<not> is_digit (hd idp))"
  proof (cases "idp \<noteq> [] \<and> hd idp = CHR ''-''")
    case True
    then obtain t where "idp = CHR ''-'' # t" by (cases idp) auto
    with parseInt_minus [of t] show ?thesis by (intro 2) simp
  next
    case False
    with h have "parseInt idp = None" by (intro parseInt_no_number) auto
    then show ?thesis by (intro 2) simp
  qed
  have 5: "getDonationById fs k db = Inr None"
    if "\<not> fault fs 0" "\<forall>r\<in>set (rows db). rowid r \<noteq> k" for k
    using that by (rule getDonationById_absent)
  have 3: "get_donation fs idp db = failure 404 ''Donation not found''"
    if "parseInt idp = Some k" "0 < k" "k \<le> 2 ^ 53" "\<not> fault fs 0"
      "\<forall>r\<in>set (rows db). rowid r \<noteq> k" for k
    using that(1,2) 5 [OF that(4,5)] by (simp add: get_donation_def)
  have 4: "failure 400 ''Invalid donation ID'' \<noteq> failure 404 ''Donation not found''"
    by (simp add: failure_def)
  from 1 2 3 4 5 show ?thesis by blast
qed

theorem get_donation_id_outcomes_witness:
  "hd ''-5'' = CHR ''-''
   \<and> get_donation [] ''-5'' db1 = failure 400 ''Invalid donation ID''
   \<and> get_donation [] ''abc'' db1 = failure 400 ''Invalid donation ID''
   \<and> get_donation [] ''0'' db1 = failure 400 ''Invalid donation ID''
   \<and> get_donation [] ''2'' db1 = failure 404 ''Donation not found''
   \<and> getDonationById [] 2 db1 = Inr None"
proof -
  have a: "hd ''-5'' = CHR ''-''" by simp
  have b: "\<not> is_white_space (hd ''abc'') \<and> hd ''abc'' \<noteq> CHR ''+'' \<and> \<not> is_digit (hd ''abc'')"
    by (simp add: is_white_space_def is_digit_def)
  have c: "parseInt ''0'' = Some 0" by (simp add: parse_defs)
  have d: "parseInt ''2'' = Some 2" by (simp add: parse_defs)
  have l: "(2::int) \<le> 2 ^ 53" by simp
  have f: "\<not> fault [] 0" by (simp add: fault_def)
  have n: "\<forall>r\<in>set (rows db1). rowid r \<noteq> 2" by (simp add: db1_def smith_row_def)
  from get_donation_id_outcomes [of "''-5''" "[]" db1] a
  have 1: "get_donation [] ''-5'' db1 = failure 400 ''Invalid donation ID''" by blast
  from get_donation_id_outcomes [of "''abc''" "[]" db1] b
  have 2: "get_donation [] ''abc'' db1 = failure 400 ''Invalid donation ID''" by blast
  from get_donation_id_outcomes [of "''0''" "[]" db1] c
  have 3: "get_donation [] ''0'' db1 = failure 400 ''Invalid donation ID''" by simp
  from get_donation_id_outcomes [of "''2''" "[]" db1] d l f n
  have 4: "get_donation [] ''2'' db1 = failure 404 ''Donation not found''"
    and 5: "getDonationById [] 2 db1 = Inr None" by simp_all
  from a 1 2 3 4 5 show ?thesis by blast
qed

text \<open>
  C9. An id that begins with decimal digits of positive value \<open>n\<close> (up to \<open>2 ^ 53\<close>, where
  an id is exact as a JavaScript number) followed by anything that is not a digit is read
  by \<open>parseInt\<close> as \<open>n\<close>, and \<^verbatim>\<open>GET\<close>, \<^verbatim>\<open>PUT\<close> and \<^verbatim>\<open>DELETE /donations/:id\<close> work on
  the record with the id \<open>n\<close>, answering as for the digits alone and never with
  \<^verbatim>\<open>Invalid donation ID\<close>. With a working medium: when no record has the id \<open>n\<close> they
  answer 404 and change nothing; when one has, \<^verbatim>\<open>GET\<close> returns that record, \<^verbatim>\<open>DELETE\<close>
  removes the rows with the id \<open>n\<close> and no others, and \<^verbatim>\<open>PUT\<close> with a valid patch that
  passes the storage checks rewrites the rows with the id \<open>n\<close>, no others, and returns the
  updated record. Each of the three answers \<^verbatim>\<open>Invalid donation ID\<close> exactly for the ids
  that \<open>parseInt\<close> maps to \<^verbatim>\<open>NaN\<close> (no leading integer) or to a number that is not
  positive.
\<close>

theorem numeric_prefix_id:
  "ds \<noteq> [] \<Longrightarrow> list_all is_digit ds \<Longrightarrow> rest = [] \<or> \<not> is_digit (hd rest) \<Longrightarrow>
   0 < digits_value 10 ds \<Longrightarrow> digits_value 10 ds \<le> 2 ^ 53 \<Longrightarrow> n = int (digits_value 10 ds) \<Longrightarrow>
     parseInt (ds @ rest) = Some n
     \<and> get_donation fs (ds @ rest) db = get_donation fs ds db
     \<and> put_donation dp fs now (ds @ rest) b db = put_donation dp fs now ds b db
     \<and> delete_donation fs (ds @ rest) db = delete_donation fs ds db
     \<and> get_donation fs (ds @ rest) db \<noteq> failure 400 ''Invalid donation ID''
     \<and> fst (put_donation dp fs now (ds @ rest) b db) \<noteq> failure 400 ''Invalid donation ID''
     \<and> fst (delete_donation fs (ds @ rest) db) \<noteq> failure 400 ''Invalid donation ID''
     \<and> (\<not> fault fs 0 \<and> (\<forall>r\<in>set (rows db). rowid r \<noteq> n) \<longrightarrow>
           get_donation fs (ds @ rest) db = failure 404 ''Donation not found''
           \<and> delete_donation fs (ds @ rest) db = (failure 404 ''Donation not found'', db)
           \<and> (\<forall>u. UpdateDonationSchema dp b = Inr u \<longrightarrow>
                 put_donation dp fs now (ds @ rest) b db =
                   (failure 404 ''Donation not found'', db)))
     \<and> (\<forall>r. \<not> fault fs 0 \<and> find (\<lambda>x. rowid x = n) (rows db) = Some r \<longrightarrow>
           get_donation fs (ds @ rest) db =
             \<lparr>status = 200, success = True, data = Some r,
              message = ''Donation retrieved successfully'', errors = None\<rparr>
           \<and> (\<not> fault fs 1 \<longrightarrow>
                 delete_donation fs (ds @ rest) db =
                   (\<lparr>status = 200, success = True, data = None,
                     message = ''Donation deleted successfully'', errors = None\<rparr>,
                    db\<lparr>rows := filter (\<lambda>x. rowid x \<noteq> n) (rows db)\<rparr>))
           \<and> (\<forall>u. \<not> fault fs 1 \<and> \<not> fault fs 2 \<and> UpdateDonationSchema dp b = Inr u
                   \<and> update_fields u \<noteq> []
                   \<and> list_all (\<lambda>x. check_constraints (set_clause u now x))
                        (filter (\<lambda>x. rowid x = n) (rows db)) \<longrightarrow>
                 put_donation dp fs now (ds @ rest) b db =
                   (\<lparr>status = 200, success = True, data = Some (set_clause u now r),
                     message = ''Donation updated successfully'', errors = None\<rparr>,
                    db\<lparr>rows := map (\<lambda>x. if rowid x = n then set_clause u now x else x)
                                  (rows db)\<rparr>)))
     \<and> (\<forall>idp. (get_donation fs idp db = failure 400 ''Invalid donation ID''
                \<longleftrightarrow> parseInt idp = None \<or> (\<exists>k. parseInt idp = Some k \<and> k \<le> 0))
              \<and> (fst (put_donation dp fs now idp b db) = failure 400 ''Invalid donation ID''
                \<longleftrightarrow> parseInt idp = None \<or> (\<exists>k. parseInt idp = Some k \<and> k \<le> 0))
              \<and> (fst (delete_donation fs idp db) = failure 400 ''Invalid donation ID''
                \<longleftrightarrow> parseInt idp = None \<or> (\<exists>k. parseInt idp = Some k \<and> k \<le> 0)))"
proof -
  assume ne: "ds \<noteq> []" and dg: "list_all is_digit ds"
    and mx: "rest = [] \<or> \<not> is_digit (hd rest)" and pos: "0 < digits_value 10 ds"
    and bd: "digits_value 10 ds \<le> 2 ^ 53" and n: "n = int (digits_value 10 ds)"
  from pos n have n0: "0 < n" by simp
  have n1: "n \<le> 2 ^ 53"
  proof -
    from bd have "int (digits_value 10 ds) \<le> int (2 ^ 53)" by (simp only: of_nat_le_iff)
    with n show ?thesis by simp
  qed
  have p: "parseInt (ds @ rest) = Some n"
    unfolding n by (rule parseInt_digits [OF ne dg mx pos bd])
  have q: "parseInt ds = Some n"
    using parseInt_digits [OF ne dg _ pos bd, of "[]"] n by simp
  have g: "get_donation fs (ds @ rest) db = get_donation fs ds db"
    by (simp add: get_donation_def p q)
  have u: "put_donation dp fs now (ds @ rest) b db = put_donation dp fs now ds b db"
    by (simp add: put_donation_def p q)
  have d: "delete_donation fs (ds @ rest) db = delete_donation fs ds db"
    by (simp add: delete_donation_def p q)
  have ng: "get_donation fs (ds @ rest) db \<noteq> failure 400 ''Invalid donation ID''"
    using n0 by (simp add: get_donation_invalid_iff p)
  have nu: "fst (put_donation dp fs now (ds @ rest) b db) \<noteq> failure 400 ''Invalid donation ID''"
    using n0 by (simp add: put_donation_invalid_iff p)
  have nd: "fst (delete_donation fs (ds @ rest) db) \<noteq> failure 400 ''Invalid donation ID''"
    using n0 by (simp add: delete_donation_invalid_iff p)
  have absent: "get_donation fs (ds @ rest) db = failure 404 ''Donation not found''
           \<and> delete_donation fs (ds @ rest) db = (failure 404 ''Donation not found'', db)
           \<and> (\<forall>u. UpdateDonationSchema dp b = Inr u \<longrightarrow>
                 put_donation dp fs now (ds @ rest) b db =
                   (failure 404 ''Donation not found'', db))"
    if h: "\<not> fault fs 0" "\<forall>r\<in>set (rows db). rowid r \<noteq> n"
  proof -
    note a = getDonationById_absent [OF h]
    from n0 show ?thesis
      by (simp add: get_donation_def delete_donation_def put_donation_def p a)
  qed
  have present_get: "get_donation fs (ds @ rest) db =
             \<lparr>status = 200, success = True, data = Some r,
              message = ''Donation retrieved successfully'', errors = None\<rparr>"
    if h: "\<not> fault fs 0" "find (\<lambda>x. rowid x = n) (rows db) = Some r" for r
  proof -
    from n0 have "0 \<le> n" by simp
    note a = getDonationById_present [OF h this n1]
    from n0 show ?thesis by (simp add: get_donation_def p a)
  qed
  have present_delete: "delete_donation fs (ds @ rest) db =
                   (\<lparr>status = 200, success = True, data = None,
                     message = ''Donation deleted successfully'', errors = None\<rparr>,
                    db\<lparr>rows := filter (\<lambda>x. rowid x \<noteq> n) (rows db)\<rparr>)"
    if h: "\<not> fault fs 0" "find (\<lambda>x. rowid x = n) (rows db) = Some r" "\<not> fault fs 1" for r
  proof -
    from n0 have "0 \<le> n" by simp
    note a = getDonationById_present [OF h(1,2) this n1]
    from h(3) have "\<not> fault (drop (Suc 0) fs) 0" by (simp add: fault_drop)
    note e = deleteDonation_present [OF this h(2)]
    from n0 show ?thesis by (simp add: delete_donation_def p a e)
  qed
  have present_put: "put_donation dp fs now (ds @ rest) b db =
                   (\<lparr>status = 200, success = True, data = Some (set_clause u now r),
                     message = ''Donation updated successfully'', errors = None\<rparr>,
                    db\<lparr>rows := map (\<lambda>x. if rowid x = n then set_clause u now x else x)
                                  (rows db)\<rparr>)"
    if h: "\<not> fault fs 0" "find (\<lambda>x. rowid x = n) (rows db) = Some r"
      and k: "\<not> fault fs 1" "\<not> fault fs 2" "UpdateDonationSchema dp b = Inr u"
        "update_fields u \<noteq> []"
        "list_all (\<lambda>x. check_constraints (set_clause u now x))
                        (filter (\<lambda>x. rowid x = n) (rows db))" for r u
  proof -
    from n0 have n0': "0 \<le> n" by simp
    note a = getDonationById_present [OF h n0' n1]
    from k(1) have f0: "\<not> fault (drop (Suc 0) fs) 0" by (simp add: fault_drop)
    from k(2) have f1: "\<not> fault (drop (Suc 0) fs) 1"
      using fault_drop [of fs 1] by (simp add: numeral_2_eq_2)
    note e = updateDonation_success [OF f0 f1 k(4) k(5) h(2)]
    from find_SomeD [OF h(2)] have "rowid (set_clause u now r) = n" by simp
    with n0' n1 have "js_row (set_clause u now r) = set_clause u now r"
      by (intro js_row_exact) simp_all
    with n0 show ?thesis by (simp add: put_donation_def p k(3) a e)
  qed
  have present: "get_donation fs (ds @ rest) db =
             \<lparr>status = 200, success = True, data = Some r,
              message = ''Donation retrieved successfully'', errors = None\<rparr>
           \<and> (\<not> fault fs 1 \<longrightarrow>
                 delete_donation fs (ds @ rest) db =
                   (\<lparr>status = 200, success = True, data = None,
                     message = ''Donation deleted successfully'', errors = None\<rparr>,
                    db\<lparr>rows := filter (\<lambda>x. rowid x \<noteq> n) (rows db)\<rparr>))
           \<and> (\<forall>u. \<not> fault fs 1 \<and> \<not> fault fs 2 \<and> UpdateDonationSchema dp b = Inr u
                   \<and> update_fields u \<noteq> []
                   \<and> list_all (\<lambda>x. check_constraints (set_clause u now x))
                        (filter (\<lambda>x. rowid x = n) (rows db)) \<longrightarrow>
                 put_donation dp fs now (ds @ rest) b db =
                   (\<lparr>status = 200, success = True, data = Some (set_clause u now r),
                     message = ''Donation updated successfully'', errors = None\<rparr>,
                    db\<lparr>rows := map (\<lambda>x. if rowid x = n then set_clause u now x else x)
                                  (rows db)\<rparr>))"
    if h: "\<not> fault fs 0 \<and> find (\<lambda>x. rowid x = n) (rows db) = Some r" for r
    using present_get [of r] present_delete [of r] present_put [of r] h by blast
  have iff: "(get_donation fs idp db = failure 400 ''Invalid donation ID''
                \<longleftrightarrow> parseInt idp = None \<or> (\<exists>k. parseInt idp = Some k \<and> k \<le> 0))
              \<and> (fst (put_donation dp fs now idp b db) = failure 400 ''Invalid donation ID''
                \<longleftrightarrow> parseInt idp = None \<or> (\<exists>k. parseInt idp = Some k \<and> k \<le> 0))
              \<and> (fst (delete_donation fs idp db) = failure 400 ''Invalid donation ID''
                \<longleftrightarrow> parseInt idp = None \<or> (\<exists>k. parseInt idp = Some k \<and> k \<le> 0))" for idp
    by (simp only: get_donation_invalid_iff put_donation_invalid_iff
        delete_donation_invalid_iff simp_thms)
  show ?thesis
    apply (intro conjI)
             apply (rule p)
            apply (rule g)
           apply (rule u)
          apply (rule d)
         apply (rule ng)
        apply (rule nu)
       apply (rule nd)
      apply (intro impI, elim conjE, erule (1) absent)
     apply (intro allI impI, erule present)
    apply (intro allI, rule iff)
    done
qed

theorem numeric_prefix_id_witness:
  "list_all is_digit ''1'' \<and> \<not> is_digit (hd ''abc'') \<and> digits_value 10 ''1'' = 1
   \<and> parseInt ''1abc'' = Some 1
   \<and> get_donation [] ''1abc'' db1 =
       \<lparr>status = 200, success = True, data = Some (smith_row 100),
        message = ''Donation retrieved successfully'', errors = None\<rparr>
   \<and> delete_donation [] ''1abc'' db1 =
       (\<lparr>status = 200, success = True, data = None,
         message = ''Donation deleted successfully'', errors = None\<rparr>,
        db0\<lparr>sqlite_sequence := 1\<rparr>)
   \<and> put_donation iso_date [] 160 ''1abc'' quantity_body db1 =
       (\<lparr>status = 200, success = True, data = Some ((smith_row 160)\<lparr>quantity := 20\<rparr>),
         message = ''Donation updated successfully'', errors = None\<rparr>,
        db1\<lparr>rows := [(smith_row 160)\<lparr>quantity := 20\<rparr>]\<rparr>)
   \<and> get_donation [] ''2abc'' db1 = failure 404 ''Donation not found''
   \<and> get_donation [] ''abc'' db1 = failure 400 ''Invalid donation ID''"
proof -
  have a: "''1'' \<noteq> []" by simp
  have b: "list_all is_digit ''1''" by (simp add: is_digit_def)
  have c: "''abc'' = [] \<or> \<not> is_digit (hd ''abc'')" by (simp add: is_digit_def)
  have v: "digits_value 10 ''1'' = 1" by (simp add: digits_value_def digit_value_def)
  have d: "0 < digits_value 10 ''1''" and e: "digits_value 10 ''1'' \<le> 2 ^ 53"
    unfolding v by simp_all
  have n: "(1::int) = int (digits_value 10 ''1'')" unfolding v by simp
  have f: "\<not> fault [] 0" "\<not> fault [] 1" "\<not> fault [] 2" by (simp_all add: fault_def)
  have r: "find (\<lambda>x. rowid x = 1) (rows db1) = Some (smith_row 100)"
    by (simp add: db1_def smith_row_def)
  have s: "UpdateDonationSchema iso_date quantity_body = Inr quantity_20"
    by (simp add: UpdateDonationSchema_def field_def optional_def quantity_schema_def
        quantity_body_def quantity_20_def)
  have w: "update_fields quantity_20 \<noteq> []"
    by (simp add: update_fields_def quantity_20_def)
  have k: "list_all (\<lambda>x. check_constraints (set_clause quantity_20 160 x))
                        (filter (\<lambda>x. rowid x = 1) (rows db1))"
    by (simp add: db1_def smith_row_def set_clause_def quantity_20_def check_constraints_def
        sqlite_length_def DonationType_def)
  have ab: "''1'' @ ''abc'' = ''1abc''" and ab2: "''2'' @ ''abc'' = ''2abc''" by simp_all
  note t = numeric_prefix_id [OF a b c d e n, of "[]" db1 iso_date 160 quantity_body,
      unfolded ab]
  have b2: "list_all is_digit ''2''" by (simp add: is_digit_def)
  have v2: "digits_value 10 ''2'' = 2" by (simp add: digits_value_def digit_value_def)
  have d2: "0 < digits_value 10 ''2''" and e2: "digits_value 10 ''2'' \<le> 2 ^ 53"
    unfolding v2 by simp_all
  have n2: "(2::int) = int (digits_value 10 ''2'')" unfolding v2 by simp
  have a2: "''2'' \<noteq> []" by simp
  note t2 = numeric_prefix_id [OF a2 b2 c d2 e2 n2, of "[]" db1 iso_date 160 quantity_body,
      unfolded ab2]
  have m: "\<forall>r\<in>set (rows db1). rowid r \<noteq> 2" by (simp add: db1_def smith_row_def)
  have x: "parseInt ''abc'' = None" by (simp add: parse_defs)
  note t8 = t [THEN conjunct2, THEN conjunct2, THEN conjunct2, THEN conjunct2,
      THEN conjunct2, THEN conjunct2, THEN conjunct2, THEN conjunct2]
  note t9 = t8 [THEN conjunct1, THEN spec, of "smith_row 100"]
  have 1: "parseInt ''1abc'' = Some 1" by (rule t [THEN conjunct1])
  from t9 f(1) r have 2: "get_donation [] ''1abc'' db1 =
       \<lparr>status = 200, success = True, data = Some (smith_row 100),
        message = ''Donation retrieved successfully'', errors = None\<rparr>" by blast
  from t9 f(1,2) r have "delete_donation [] ''1abc'' db1 =
       (\<lparr>status = 200, success = True, data = None,
         message = ''Donation deleted successfully'', errors = None\<rparr>,
        db1\<lparr>rows := filter (\<lambda>x. rowid x \<noteq> 1) (rows db1)\<rparr>)" by blast
  then have 3: "delete_donation [] ''1abc'' db1 =
       (\<lparr>status = 200, success = True, data = None,
         message = ''Donation deleted successfully'', errors = None\<rparr>,
        db0\<lparr>sqlite_sequence := 1\<rparr>)"
    by (simp add: db1_def db0_def smith_row_def)
  from t9 f r s w k have "put_donation iso_date [] 160 ''1abc'' quantity_body db1 =
       (\<lparr>status = 200, success = True, data = Some (set_clause quantity_20 160 (smith_row 100)),
         message = ''Donation updated successfully'', errors = None\<rparr>,
        db1\<lparr>rows := map (\<lambda>x. if rowid x = 1 then set_clause quantity_20 160 x else x)
                        (rows db1)\<rparr>)" by blast
  then have 4: "put_donation iso_date [] 160 ''1abc'' quantity_body db1 =
       (\<lparr>status = 200, success = True, data = Some ((smith_row 160)\<lparr>quantity := 20\<rparr>),
         message = ''Donation updated successfully'', errors = None\<rparr>,
        db1\<lparr>rows := [(smith_row 160)\<lparr>quantity := 20\<rparr>]\<rparr>)"
    by (simp add: db1_def smith_row_def set_clause_def quantity_20_def)
  note t7 = t2 [THEN conjunct2, THEN conjunct2, THEN conjunct2, THEN conjunct2,
      THEN conjunct2, THEN conjunct2, THEN conjunct2, THEN conjunct1]
  from t7 f(1) m have 5: "get_donation [] ''2abc'' db1 = failure 404 ''Donation not found''"
    by blast
  from t8 [THEN conjunct2, THEN spec, of "''abc''"] x
  have 6: "get_donation [] ''abc'' db1 = failure 400 ''Invalid donation ID''" by blast
  from c have c': "\<not> is_digit (hd ''abc'')" by simp
  from b c' v 1 2 3 4 5 6 show ?thesis by blast
qed

end
